theory Spec2Isabelle
  imports Complex_Main "HOL-Library.AList"
begin

section \<open>Values and messages (providers/base.py)\<close>

text \<open>
  Python values that cross the tool and persistence boundaries (\<open>Dict[str, Any]\<close>,
  \<open>Any\<close>) are JSON values. A dict is an association list in insertion order with
  distinct keys; \<open>None\<close> is \<open>JNull\<close>.
\<close>

datatype json =
    JNull
  | JBool bool
  | JInt int
  | JStr string
  | JList "json list"
  | JObj "(string \<times> json) list"

text \<open>\<open>class MessageRole(Enum)\<close>, with its \<open>.value\<close> and its constructor from a value.\<close>

datatype MessageRole = SYSTEM | USER | ASSISTANT | TOOL

fun role_value :: "MessageRole \<Rightarrow> string" where
  "role_value SYSTEM = ''system''"
| "role_value USER = ''user''"
| "role_value ASSISTANT = ''assistant''"
| "role_value TOOL = ''tool''"

text \<open>
  An exception is its class name and its message (\<open>type(e).__name__\<close>, \<open>str(e)\<close>),
  together with what the \<open>except\<close> clauses of the program tell apart by class: an
  instance of \<open>asyncio.TimeoutError\<close>, another instance of \<open>Exception\<close>, or an
  exception outside the \<open>Exception\<close> hierarchy (\<open>KeyboardInterrupt\<close>, \<open>SystemExit\<close>,
  \<open>asyncio.CancelledError\<close>), which \<open>except Exception\<close> does not catch.
\<close>

datatype exn_class = TimeoutErrorClass | ExceptionClass | BaseExceptionClass

datatype exn = Exn exn_class string string

fun exn_class_of :: "exn \<Rightarrow> exn_class" where
  "exn_class_of (Exn c k m) = c"

fun exn_kind :: "exn \<Rightarrow> string" where
  "exn_kind (Exn c k m) = k"

fun exn_message :: "exn \<Rightarrow> string" where
  "exn_message (Exn c k m) = m"

text \<open>What \<open>except Exception\<close> catches.\<close>

definition is_Exception :: "exn \<Rightarrow> bool" where
  "is_Exception ex = (exn_class_of ex \<noteq> BaseExceptionClass)"

definition MessageRole_of :: "string \<Rightarrow> exn + MessageRole" where
  "MessageRole_of s =
     (if s = ''system'' then Inr SYSTEM
      else if s = ''user'' then Inr USER
      else if s = ''assistant'' then Inr ASSISTANT
      else if s = ''tool'' then Inr TOOL
      else Inl (Exn ExceptionClass ''ValueError'' s))"

text \<open>\<open>@dataclass class Message\<close>.\<close>

record Message =
  role :: MessageRole
  content :: string
  tool_calls :: "json list option"
  tool_call_id :: "string option"

section \<open>Conversation (core/conversation.py)\<close>

record Conversation =
  messages :: "Message list"
  max_history :: int
  system_prompt :: "string option"

text \<open>
  Python's \<open>xs[s:]\<close> for an integer \<open>s\<close>: a negative start counts from the end and is
  clamped at the front, a start beyond the end gives the empty list. Note that
  \<open>xs[-0:]\<close> is \<open>xs[0:]\<close>, the whole list.
\<close>

definition py_slice_from :: "int \<Rightarrow> 'a list \<Rightarrow> 'a list" where
  "py_slice_from s xs =
     (let n = int (length xs);
          j = (if s < 0 then max 0 (n + s) else min s n)
      in drop (nat j) xs)"

definition is_system :: "Message \<Rightarrow> bool" where
  "is_system msg = (role msg = SYSTEM)"

text \<open>
  \<open>_trim_history\<close>: when the list is longer than \<open>max_history\<close>, the system messages
  followed by \<open>other_msgs[-(max_history - len(system_msgs)):]\<close>.
\<close>

definition trim_history :: "Conversation \<Rightarrow> Conversation" where
  "trim_history c =
     (if int (length (messages c)) > max_history c then
        (let system_msgs = filter is_system (messages c);
             other_msgs = filter (\<lambda>msg. \<not> is_system msg) (messages c);
             recent_msgs = py_slice_from (- (max_history c - int (length system_msgs))) other_msgs
         in c\<lparr>messages := system_msgs @ recent_msgs\<rparr>)
      else c)"

definition add_message :: "Conversation \<Rightarrow> Message \<Rightarrow> Conversation" where
  "add_message c message = trim_history (c\<lparr>messages := messages c @ [message]\<rparr>)"

definition get_messages_for_provider :: "Conversation \<Rightarrow> Message list" where
  "get_messages_for_provider c = messages c"

definition get_message_count :: "Conversation \<Rightarrow> nat" where
  "get_message_count c = length (messages c)"

text \<open>Appending a sequence of messages one by one, as repeated calls of \<open>add_message\<close>.\<close>

definition add_messages :: "Conversation \<Rightarrow> Message list \<Rightarrow> Conversation" where
  "add_messages c ms = foldl add_message c ms"

definition mk_msg :: "MessageRole \<Rightarrow> string \<Rightarrow> Message" where
  "mk_msg r txt = \<lparr>role = r, content = txt, tool_calls = None, tool_call_id = None\<rparr>"

definition new_conversation :: "int \<Rightarrow> Conversation" where
  "new_conversation n = \<lparr>messages = [], max_history = n, system_prompt = None\<rparr>"

section \<open>Tools (tools/base.py)\<close>

text \<open>\<open>class ToolResult(BaseModel)\<close>; \<open>result: Any\<close> is a JSON value, \<open>None\<close> is \<open>JNull\<close>.\<close>

record ToolResult =
  success :: bool
  result :: json
  error :: "string option"
  metadata :: "(string \<times> json) list"

text \<open>
  What awaiting \<open>asyncio.wait_for(tool.execute(**arguments), timeout)\<close> does: the tool
  returns its \<open>ToolResult\<close>; or it does not finish within the timeout, and \<open>wait_for\<close>
  raises \<open>asyncio.TimeoutError\<close>; or an exception of any class is raised (binding
  \<open>**arguments\<close> to the parameters is part of the call, so a \<open>TypeError\<close> of the call is
  one of them; the tool may itself raise \<open>asyncio.TimeoutError\<close>, or an exception outside
  the \<open>Exception\<close> hierarchy).
\<close>

datatype tool_outcome = Returns ToolResult | TimesOut | Raises exn

text \<open>
  A \<open>BaseTool\<close> instance: its \<open>name\<close> and \<open>description\<close>, the \<open>parameters\<close> object of
  its \<open>schema\<close>, and its \<open>execute\<close>. What a call does depends on the arguments and on
  the timeout in seconds it is awaited under: a call that returns under one timeout exceeds
  a shorter one, and \<open>wait_for\<close> with a timeout that is not positive cancels the call before
  it starts.
\<close>

record BaseTool =
  tool_name :: string
  tool_description :: string
  tool_parameters :: json
  tool_execute :: "json \<Rightarrow> int \<Rightarrow> tool_outcome"

section \<open>Tool registry (tools/registry.py)\<close>

text \<open>
  \<open>_tools\<close> and \<open>_tool_classes\<close> are dicts in insertion order. A class is represented by
  the instance its constructor builds; \<open>register_class\<close> has already built one instance
  to read the name, so the constructor is taken not to raise.
\<close>

record ToolRegistry =
  reg_tools :: "(string \<times> BaseTool) list"
  reg_tool_classes :: "(string \<times> BaseTool) list"

definition register :: "ToolRegistry \<Rightarrow> BaseTool \<Rightarrow> ToolRegistry" where
  "register reg tool =
     reg\<lparr>reg_tools := AList.update (tool_name tool) tool (reg_tools reg),
         reg_tool_classes := AList.update (tool_name tool) tool (reg_tool_classes reg)\<rparr>"

definition register_class :: "ToolRegistry \<Rightarrow> BaseTool \<Rightarrow> ToolRegistry" where
  "register_class reg tool_class =
     reg\<lparr>reg_tool_classes := AList.update (tool_name tool_class) tool_class (reg_tool_classes reg)\<rparr>"

text \<open>
  \<open>get_tool\<close> instantiates lazily and caches the instance. The name comes from
  \<open>tool_call.get("name")\<close> and is \<open>None\<close> when the key is missing; \<open>None\<close> is no key of
  either dict.
\<close>

definition get_tool :: "ToolRegistry \<Rightarrow> string option \<Rightarrow> BaseTool option \<times> ToolRegistry" where
  "get_tool reg nm =
     (case nm of
        None \<Rightarrow> (None, reg)
      | Some n \<Rightarrow>
          (case map_of (reg_tools reg) n of
             Some tool \<Rightarrow> (Some tool, reg)
           | None \<Rightarrow>
               (case map_of (reg_tool_classes reg) n of
                  Some tool_class \<Rightarrow>
                    (Some tool_class, reg\<lparr>reg_tools := AList.update n tool_class (reg_tools reg)\<rparr>)
                | None \<Rightarrow> (None, reg))))"

definition schema_dict :: "BaseTool \<Rightarrow> json" where
  "schema_dict tool =
     JObj [(''name'', JStr (tool_name tool)),
           (''description'', JStr (tool_description tool)),
           (''parameters'', tool_parameters tool)]"

text \<open>
  \<open>get_tool_schemas\<close>, already converted to the dict format \<open>send_message\<close> gives the
  provider: the instantiated tools, then the classes whose name is not instantiated.
\<close>

definition get_tool_schemas :: "ToolRegistry \<Rightarrow> json list" where
  "get_tool_schemas reg =
     map (\<lambda>(n, tool). schema_dict tool) (reg_tools reg) @
     map (\<lambda>(n, tool_class). schema_dict tool_class)
       (filter (\<lambda>(n, tool_class). n \<notin> set (map fst (reg_tools reg))) (reg_tool_classes reg))"

definition list_tools :: "ToolRegistry \<Rightarrow> string list" where
  "list_tools reg = remdups (map fst (reg_tools reg) @ map fst (reg_tool_classes reg))"

section \<open>Tool executor (tools/executor.py)\<close>

text \<open>
  An entry of \<open>execution_history\<close>. The wall-clock fields (\<open>execution_time\<close>,
  \<open>timestamp\<close>) are left out.
\<close>

record ExecutionRecord =
  rec_tool_name :: string
  rec_arguments :: json
  rec_success :: bool
  rec_error_type :: "string option"
  rec_error_message :: "string option"

record ToolExecutor =
  default_timeout :: int
  execution_history :: "ExecutionRecord list"

text \<open>Python's \<open>str\<close> of an integer, as an f-string formats it.\<close>

definition digit_char :: "nat \<Rightarrow> char" where
  "digit_char d =
     (if d = 0 then CHR ''0'' else if d = 1 then CHR ''1'' else if d = 2 then CHR ''2''
      else if d = 3 then CHR ''3'' else if d = 4 then CHR ''4'' else if d = 5 then CHR ''5''
      else if d = 6 then CHR ''6'' else if d = 7 then CHR ''7'' else if d = 8 then CHR ''8''
      else CHR ''9'')"

fun str_nat :: "nat \<Rightarrow> string" where
  "str_nat n =
     (if n < 10 then [digit_char n]
      else str_nat (n div 10) @ [digit_char (n mod 10)])"

definition str_int :: "int \<Rightarrow> string" where
  "str_int i = (if i < 0 then ''-'' @ str_nat (nat (- i)) else str_nat (nat i))"

definition record_execution ::
  "ToolExecutor \<Rightarrow> string \<Rightarrow> json \<Rightarrow> ToolResult \<Rightarrow> string option \<Rightarrow> ToolExecutor" where
  "record_execution ex nm arguments res error_type =
     (let execution_record =
            \<lparr>rec_tool_name = nm, rec_arguments = arguments, rec_success = success res,
             rec_error_type = error_type,
             rec_error_message = (if \<not> success res then error res else None)\<rparr>;
          history = execution_history ex @ [execution_record]
      in ex\<lparr>execution_history :=
               (if length history > 100 then py_slice_from (- 100) history else history)\<rparr>)"

text \<open>
  The body of the \<open>try\<close> in \<open>execute\<close>: the awaited call returns or raises; the
  exception of an expired timeout is the \<open>asyncio.TimeoutError\<close> that \<open>wait_for\<close> raises.
\<close>

definition await_tool :: "BaseTool \<Rightarrow> json \<Rightarrow> int \<Rightarrow> exn + ToolResult" where
  "await_tool tool arguments timeout =
     (case tool_execute tool arguments timeout of
        Returns res \<Rightarrow> Inr res
      | TimesOut \<Rightarrow> Inl (Exn TimeoutErrorClass ''TimeoutError'' '''')
      | Raises e \<Rightarrow> Inl e)"

definition failed_result :: "string \<Rightarrow> ToolResult" where
  "failed_result error_msg =
     \<lparr>success = False, result = JNull, error = Some error_msg, metadata = []\<rparr>"

text \<open>\<open>timeout or self.default_timeout\<close>: \<open>None\<close> and \<open>0\<close> are falsy.\<close>

definition effective_timeout :: "ToolExecutor \<Rightarrow> int option \<Rightarrow> int" where
  "effective_timeout ex timeout =
     (case timeout of
        None \<Rightarrow> default_timeout ex
      | Some t \<Rightarrow> if t = 0 then default_timeout ex else t)"

text \<open>
  \<open>execute\<close>: the effective timeout, the \<open>try\<close>, and the two handlers, selected by
  the class of the exception: \<open>except asyncio.TimeoutError\<close> first, then
  \<open>except Exception\<close>. An exception that neither clause catches leaves the method, and
  nothing is recorded for it.
\<close>

definition execute ::
  "ToolExecutor \<Rightarrow> BaseTool \<Rightarrow> json \<Rightarrow> int option \<Rightarrow> (exn + ToolResult) \<times> ToolExecutor" where
  "execute ex tool arguments timeout =
     (let timeout' = effective_timeout ex timeout
      in case await_tool tool arguments timeout' of
           Inr res \<Rightarrow> (Inr res, record_execution ex (tool_name tool) arguments res None)
         | Inl e \<Rightarrow>
             (case exn_class_of e of
                TimeoutErrorClass \<Rightarrow>
                  (let error_msg = ''Tool execution timed out after '' @ str_int timeout' @ '' seconds'';
                       failed = failed_result error_msg
                   in (Inr failed,
                       record_execution ex (tool_name tool) arguments failed (Some ''timeout'')))
              | ExceptionClass \<Rightarrow>
                  (let error_msg = ''Tool execution failed: '' @ exn_message e;
                       failed = failed_result error_msg
                   in (Inr failed,
                       record_execution ex (tool_name tool) arguments failed (Some (exn_kind e))))
              | BaseExceptionClass \<Rightarrow> (Inl e, ex)))"

definition str_opt :: "string option \<Rightarrow> string" where
  "str_opt s = (case s of None \<Rightarrow> ''None'' | Some t \<Rightarrow> t)"

definition execute_by_name ::
  "ToolExecutor \<Rightarrow> ToolRegistry \<Rightarrow> string option \<Rightarrow> json \<Rightarrow> int option
     \<Rightarrow> (exn + ToolResult) \<times> ToolExecutor \<times> ToolRegistry" where
  "execute_by_name ex registry nm arguments timeout =
     (case get_tool registry nm of
        (None, registry') \<Rightarrow>
          (Inr (failed_result (''Tool '' @ [CHR 39] @ str_opt nm @ [CHR 39] @ '' not found in registry'')),
           ex, registry')
      | (Some tool, registry') \<Rightarrow>
          (case execute ex tool arguments timeout of (r, ex') \<Rightarrow> (r, ex', registry')))"

section \<open>Provider interface (providers/base.py)\<close>

text \<open>\<open>@dataclass class ToolCall\<close> and its \<open>to_dict\<close>.\<close>

record ToolCall =
  tc_id :: string
  tc_name :: string
  tc_arguments :: json

definition ToolCall_to_dict :: "ToolCall \<Rightarrow> json" where
  "ToolCall_to_dict tc =
     JObj [(''id'', JStr (tc_id tc)), (''name'', JStr (tc_name tc)),
           (''arguments'', tc_arguments tc)]"

text \<open>
  A tool-call request inside a provider response is a dict that the engine reads with
  \<open>.get\<close>: each of its three keys may be missing.
\<close>

record ToolCallRequest =
  req_id :: "string option"
  req_name :: "string option"
  req_arguments :: "json option"

text \<open>
  The dicts a provider hands to the engine: the response of \<open>create_message_with_tools\<close>
  and each item of the \<open>stream_message_with_tools\<close> feed. A field is \<open>None\<close> when the
  key is absent. \<open>tool_call_start\<close> holds the \<open>id\<close> and \<open>name\<close> keys of its inner dict,
  \<open>tool_call_delta\<close> the \<open>partial_json\<close> key of its inner dict.
\<close>

record ResponseData =
  rd_content :: "string option"
  rd_tool_calls :: "ToolCallRequest list option"
  rd_tool_call_start :: "(string option \<times> string option) option"
  rd_tool_call_delta :: "string option option"
  rd_stop :: "bool option"
  rd_model :: "string option"
  rd_usage :: "json option"
  rd_tool_results :: "(string \<times> json \<times> bool) list option"

definition empty_data :: ResponseData where
  "empty_data =
     \<lparr>rd_content = None, rd_tool_calls = None, rd_tool_call_start = None,
      rd_tool_call_delta = None, rd_stop = None, rd_model = None, rd_usage = None,
      rd_tool_results = None\<rparr>"

text \<open>
  The remote model behind \<open>BaseProvider\<close>. Each operation answers from the messages (and
  tool schemas) it is sent; the constant keyword arguments \<open>max_tokens\<close> and \<open>temperature\<close>
  are left out. A one-shot operation returns or raises; a streamed operation is a finite
  feed that may end in an exception.
\<close>

record Provider =
  p_supports_tools :: bool
  p_create_message :: "Message list \<Rightarrow> exn + string"
  p_create_message_with_tools :: "Message list \<Rightarrow> json list \<Rightarrow> exn + ResponseData"
  p_stream_message :: "Message list \<Rightarrow> string list \<times> exn option"
  p_stream_message_with_tools :: "Message list \<Rightarrow> json list \<Rightarrow> ResponseData list \<times> exn option"

definition supports_tool_calling :: "Provider \<Rightarrow> bool" where
  "supports_tool_calling prov = p_supports_tools prov"

section \<open>Chat engine (core/chat.py)\<close>

text \<open>
  Functions the engine calls whose results no property below depends on, taken as
  parameters: Python's \<open>str\<close> of a tool's result value, \<open>json.loads\<close>, and the two
  thinking-mode helpers \<open>_create_thinking_prompt\<close> (a fixed template around the content)
  and \<open>_parse_thinking_response\<close> (a split at marker strings).
\<close>

record Lib =
  py_str :: "json \<Rightarrow> string"
  json_loads :: "string \<Rightarrow> exn + json"
  create_thinking_prompt :: "string \<Rightarrow> string"
  parse_thinking_response :: "string \<Rightarrow> string \<times> string"

record ChatResponse =
  cr_content :: string
  cr_tool_calls :: "ToolCall list option"
  cr_thinking :: "string option"
  cr_model :: "string option"
  cr_usage :: "json option"

record ChatConfig =
  enable_thinking :: bool
  enable_tools :: bool

text \<open>
  The engine's observable actions, in the order they happen: calls of the provider (with
  the messages sent), calls of \<open>execute_by_name\<close>, and calls of
  \<open>conversation.add_message\<close>.
\<close>

datatype event =
    ProviderCreateMessage "Message list"
  | ProviderCreateMessageWithTools "Message list" "json list"
  | ProviderStreamMessage "Message list"
  | ProviderStreamMessageWithTools "Message list" "json list"
  | ToolExecution "string option" json
  | Appended Message

record ChatEngine =
  config :: ChatConfig
  conversation :: Conversation
  tool_registry :: ToolRegistry
  tool_executor :: ToolExecutor
  trace :: "event list"

definition log_event :: "ChatEngine \<Rightarrow> event \<Rightarrow> ChatEngine" where
  "log_event e ev = e\<lparr>trace := trace e @ [ev]\<rparr>"

text \<open>\<open>self.conversation.add_message(msg)\<close>.\<close>

definition append_message :: "ChatEngine \<Rightarrow> Message \<Rightarrow> ChatEngine" where
  "append_message e msg =
     e\<lparr>conversation := add_message (conversation e) msg, trace := trace e @ [Appended msg]\<rparr>"

text \<open>\<open>self.tool_executor.execute_by_name(self.tool_registry, tool_name, tool_args)\<close>.\<close>

definition run_tool :: "ChatEngine \<Rightarrow> string option \<Rightarrow> json \<Rightarrow> (exn + ToolResult) \<times> ChatEngine" where
  "run_tool e nm arguments =
     (case execute_by_name (tool_executor e) (tool_registry e) nm arguments None of
        (r, ex', registry') \<Rightarrow>
          (r, e\<lparr>tool_executor := ex', tool_registry := registry',
                 trace := trace e @ [ToolExecution nm arguments]\<rparr>))"

text \<open>\<open>str(result.result) if result.success else f"Error: {result.error}"\<close>.\<close>

definition tool_message_text :: "Lib \<Rightarrow> ToolResult \<Rightarrow> string" where
  "tool_message_text lib res =
     (if success res then py_str lib (result res) else ''Error: '' @ str_opt (error res))"

definition tool_message :: "Lib \<Rightarrow> string \<Rightarrow> ToolResult \<Rightarrow> Message" where
  "tool_message lib tool_id res =
     \<lparr>role = TOOL, content = tool_message_text lib res, tool_calls = None,
      tool_call_id = Some tool_id\<rparr>"

definition get_default :: "'a option \<Rightarrow> 'a \<Rightarrow> 'a" where
  "get_default v d = (case v of None \<Rightarrow> d | Some x \<Rightarrow> x)"

text \<open>
  The flag resolution at the head of \<open>send_message\<close> and \<open>stream_message\<close>:
  \<open>should_enable_tools\<close> and \<open>available_tools\<close>.
\<close>

definition should_enable_tools ::
  "Provider \<Rightarrow> ChatEngine \<Rightarrow> json list option \<Rightarrow> bool option \<Rightarrow> bool" where
  "should_enable_tools prov e tools_arg enable_tools_arg =
     (case enable_tools_arg of
        Some b \<Rightarrow> b
      | None \<Rightarrow>
          enable_tools (config e) \<and> supports_tool_calling prov \<and>
          (tools_arg \<noteq> None \<or> length (list_tools (tool_registry e)) > 0))"

definition available_tools ::
  "Provider \<Rightarrow> ChatEngine \<Rightarrow> json list option \<Rightarrow> bool option \<Rightarrow> json list option" where
  "available_tools prov e tools_arg enable_tools_arg =
     (if should_enable_tools prov e tools_arg enable_tools_arg \<and> tools_arg = None
      then Some (get_tool_schemas (tool_registry e))
      else tools_arg)"

text \<open>
  The test \<open>should_enable_tools and available_tools and self.provider.supports_tool_calling()\<close>
  that selects the provider operation with tools.
\<close>

definition use_tools ::
  "Provider \<Rightarrow> ChatEngine \<Rightarrow> json list option \<Rightarrow> bool option \<Rightarrow> bool" where
  "use_tools prov e tools_arg enable_tools_arg =
     (should_enable_tools prov e tools_arg enable_tools_arg \<and>
      get_default (available_tools prov e tools_arg enable_tools_arg) [] \<noteq> [] \<and>
      supports_tool_calling prov)"

definition request_to_ToolCall :: "ToolCallRequest \<Rightarrow> ToolCall" where
  "request_to_ToolCall tc_data =
     \<lparr>tc_id = get_default (req_id tc_data) '''',
      tc_name = get_default (req_name tc_data) '''',
      tc_arguments = get_default (req_arguments tc_data) (JObj [])\<rparr>"

text \<open>\<open>_process_response\<close>.\<close>

definition process_response :: "Lib \<Rightarrow> ResponseData \<Rightarrow> bool \<Rightarrow> ChatResponse" where
  "process_response lib response_data thinking =
     (let txt = get_default (rd_content response_data) '''';
          tool_calls_data =
            (case rd_tool_calls response_data of
               Some tcs \<Rightarrow> tcs
             | None \<Rightarrow>
                 (case rd_tool_call_start response_data of
                    Some (i, n) \<Rightarrow>
                      [\<lparr>req_id = Some (get_default i ''''), req_name = Some (get_default n ''''),
                        req_arguments = Some (JObj [])\<rparr>]
                  | None \<Rightarrow> []));
          parsed = (if thinking \<and> txt \<noteq> ''''
                    then (case parse_thinking_response lib txt of (t, r) \<Rightarrow> (Some t, r))
                    else (None, txt));
          calls = map request_to_ToolCall tool_calls_data
      in \<lparr>cr_content = snd parsed,
          cr_tool_calls = (if calls \<noteq> [] then Some calls else None),
          cr_thinking = fst parsed,
          cr_model = rd_model response_data,
          cr_usage = rd_usage response_data\<rparr>)"

text \<open>
  The loop of \<open>_handle_tool_calls\<close>: each request is executed and answered by one tool
  message, in the order of the list; \<open>tool_results\<close> is the accumulator.
\<close>

fun run_tool_calls ::
  "Lib \<Rightarrow> ChatEngine \<Rightarrow> ToolCallRequest list \<Rightarrow> (string \<times> json \<times> bool) list
     \<Rightarrow> (exn + (string \<times> json \<times> bool) list) \<times> ChatEngine" where
  "run_tool_calls lib e [] tool_results = (Inr tool_results, e)"
| "run_tool_calls lib e (tool_call # rest) tool_results =
     (let tool_args = get_default (req_arguments tool_call) (JObj []);
          tool_id = get_default (req_id tool_call) ''''
      in case run_tool e (req_name tool_call) tool_args of
           (Inl ex, e1) \<Rightarrow> (Inl ex, e1)
         | (Inr res, e1) \<Rightarrow>
             run_tool_calls lib (append_message e1 (tool_message lib tool_id res)) rest
               (tool_results @
                  [(tool_id,
                    (if success res then result res else JStr (''Error: '' @ str_opt (error res))),
                    success res)]))"

text \<open>\<open>_handle_tool_calls\<close>: the loop, then the follow-up \<open>create_message\<close>.\<close>

definition handle_tool_calls ::
  "Lib \<Rightarrow> Provider \<Rightarrow> ChatEngine \<Rightarrow> ResponseData \<Rightarrow> (exn + ResponseData) \<times> ChatEngine" where
  "handle_tool_calls lib prov e response_data =
     (let tcs = get_default (rd_tool_calls response_data) []
      in if tcs = [] then (Inr response_data, e)
         else
           (case run_tool_calls lib e tcs [] of
              (Inl ex, e1) \<Rightarrow> (Inl ex, e1)
            | (Inr tool_results, e1) \<Rightarrow>
                (let msgs = get_messages_for_provider (conversation e1);
                     e2 = log_event e1 (ProviderCreateMessage msgs)
                 in case p_create_message prov msgs of
                      Inl ex \<Rightarrow> (Inl ex, e2)
                    | Inr final_response \<Rightarrow>
                        (Inr (empty_data\<lparr>rd_content := Some final_response,
                                         rd_tool_calls := Some tcs,
                                         rd_tool_results := Some tool_results\<rparr>), e2))))"

text \<open>
  The \<open>except Exception as e\<close> handler of both entry points:
  \<open>self.conversation.messages.pop()\<close>, then \<open>raise e\<close>. \<open>pop\<close> removes the last
  element whatever it is, and raises \<open>IndexError\<close> on an empty list. An exception
  outside the \<open>Exception\<close> hierarchy is not caught: it leaves the method and the
  conversation stays as it is.
\<close>

definition pop_and_raise :: "ChatEngine \<Rightarrow> exn \<Rightarrow> exn \<times> ChatEngine" where
  "pop_and_raise e ex =
     (if \<not> is_Exception ex then (ex, e)
      else if messages (conversation e) = []
      then (Exn ExceptionClass ''IndexError'' ''pop from empty list'', e)
      else (ex, e\<lparr>conversation :=
                    (conversation e)\<lparr>messages := butlast (messages (conversation e))\<rparr>\<rparr>))"

definition user_message :: "Lib \<Rightarrow> bool \<Rightarrow> string \<Rightarrow> Message" where
  "user_message lib thinking txt =
     \<lparr>role = USER, content = (if thinking then create_thinking_prompt lib txt else txt),
      tool_calls = None, tool_call_id = None\<rparr>"

definition assistant_message :: "ChatResponse \<Rightarrow> Message" where
  "assistant_message chat_response =
     \<lparr>role = ASSISTANT, content = cr_content chat_response,
      tool_calls = (case cr_tool_calls chat_response of
                      None \<Rightarrow> None
                    | Some tcs \<Rightarrow> if tcs = [] then None else Some (map ToolCall_to_dict tcs)),
      tool_call_id = None\<rparr>"

text \<open>
  The \<open>try\<close> block of \<open>send_message\<close>, entered after the user message is appended.
  \<open>save_current_session\<close> writes the session file and catches its own I/O errors; it
  does not touch the conversation and is left out.
\<close>

definition send_try ::
  "Lib \<Rightarrow> Provider \<Rightarrow> ChatEngine \<Rightarrow> bool \<Rightarrow> bool \<Rightarrow> json list
     \<Rightarrow> (exn + ChatResponse) \<times> ChatEngine" where
  "send_try lib prov e thinking with_tools tool_dicts =
     (let msgs = get_messages_for_provider (conversation e);
          first =
            (if with_tools then
               (case p_create_message_with_tools prov msgs tool_dicts of
                  Inl ex \<Rightarrow> (Inl ex, log_event e (ProviderCreateMessageWithTools msgs tool_dicts))
                | Inr response_data \<Rightarrow>
                    (Inr response_data, log_event e (ProviderCreateMessageWithTools msgs tool_dicts)))
             else
               (case p_create_message prov msgs of
                  Inl ex \<Rightarrow> (Inl ex, log_event e (ProviderCreateMessage msgs))
                | Inr response_content \<Rightarrow>
                    (Inr (empty_data\<lparr>rd_content := Some response_content\<rparr>),
                     log_event e (ProviderCreateMessage msgs))))
      in case first of
           (Inl ex, e1) \<Rightarrow> (Inl ex, e1)
         | (Inr response_data, e1) \<Rightarrow>
             (case (if get_default (rd_tool_calls response_data) [] \<noteq> []
                    then handle_tool_calls lib prov e1 response_data
                    else (Inr response_data, e1)) of
                (Inl ex, e2) \<Rightarrow> (Inl ex, e2)
              | (Inr response_data', e2) \<Rightarrow>
                  (let chat_response = process_response lib response_data' thinking
                   in (Inr chat_response, append_message e2 (assistant_message chat_response)))))"

definition send_message ::
  "Lib \<Rightarrow> Provider \<Rightarrow> ChatEngine \<Rightarrow> string \<Rightarrow> bool option \<Rightarrow> json list option \<Rightarrow> bool option
     \<Rightarrow> (exn + ChatResponse) \<times> ChatEngine" where
  "send_message lib prov e txt thinking_mode tools_arg enable_tools_arg =
     (let thinking = get_default thinking_mode (enable_thinking (config e));
          with_tools = use_tools prov e tools_arg enable_tools_arg;
          tool_dicts = get_default (available_tools prov e tools_arg enable_tools_arg) [];
          e1 = append_message e (user_message lib thinking txt)
      in case send_try lib prov e1 thinking with_tools tool_dicts of
           (Inr chat_response, e2) \<Rightarrow> (Inr chat_response, e2)
         | (Inl ex, e2) \<Rightarrow> (case pop_and_raise e2 ex of (ex', e3) \<Rightarrow> (Inl ex', e3)))"

section \<open>Streaming turn (core/chat.py, \<open>stream_message\<close>)\<close>

text \<open>
  An entry of \<open>accumulated_tool_calls\<close>: the dict with the keys \<open>id\<close>, \<open>name\<close>,
  \<open>arguments\<close> and \<open>arguments_json\<close>. \<open>arguments\<close> starts as the empty string and
  becomes the parsed value at \<open>stop\<close>.
\<close>

record AccumulatedCall =
  ac_id :: string
  ac_name :: string
  ac_arguments :: json
  ac_arguments_json :: string

text \<open>
  The local state of the generator. \<open>accumulated_tool_calls\<close> is a dict in insertion
  order. \<open>current_tool_call\<close> is, in the source, the dict object most recently stored in
  \<open>accumulated_tool_calls\<close>, under its own id; it is represented by that id, and an
  update of the current call is an update of that entry. \<open>yielded\<close> collects the chunks
  the generator has produced.
\<close>

record StreamState =
  st_engine :: ChatEngine
  accumulated_content :: string
  accumulated_tool_calls :: "(string \<times> AccumulatedCall) list"
  current_tool_call :: "string option"
  yielded :: "ChatResponse list"

text \<open>\<open>ChatResponse(content=text)\<close>.\<close>

definition content_chunk :: "string \<Rightarrow> ChatResponse" where
  "content_chunk txt =
     \<lparr>cr_content = txt, cr_tool_calls = None, cr_thinking = None, cr_model = None,
      cr_usage = None\<rparr>"

text \<open>Yielding a chunk and adding its text to \<open>accumulated_content\<close>.\<close>

definition yield_chunk :: "StreamState \<Rightarrow> ChatResponse \<Rightarrow> StreamState" where
  "yield_chunk st chunk =
     st\<lparr>yielded := yielded st @ [chunk],
        accumulated_content := accumulated_content st @ cr_content chunk\<rparr>"

text \<open>
  The inner \<open>except Exception as e\<close> of the loop at \<open>stop\<close>: the error text is
  yielded and the loop goes on; an exception outside the \<open>Exception\<close> hierarchy is not
  caught and leaves the loop.
\<close>

definition yield_error :: "StreamState \<Rightarrow> AccumulatedCall \<Rightarrow> exn \<Rightarrow> exn option \<times> StreamState" where
  "yield_error st tool_call ex =
     (if is_Exception ex
      then (None,
            yield_chunk st
              (content_chunk (''Error executing '' @ ac_name tool_call @ '': '' @ exn_message ex)))
      else (Some ex, st))"

text \<open>
  The body of the loop over \<open>accumulated_tool_calls.items()\<close> at \<open>stop\<close>, with its
  inner \<open>try\<close>: parse the arguments, execute, append the tool message, yield the
  result.
\<close>

definition execute_accumulated ::
  "Lib \<Rightarrow> StreamState \<Rightarrow> string \<times> AccumulatedCall \<Rightarrow> exn option \<times> StreamState" where
  "execute_accumulated lib st item =
     (case item of (tool_id, tool_call) \<Rightarrow>
        (case (if ac_arguments_json tool_call \<noteq> ''''
               then json_loads lib (ac_arguments_json tool_call)
               else Inr (JObj [])) of
           Inl ex \<Rightarrow> yield_error st tool_call ex
         | Inr arguments \<Rightarrow>
             (let st1 = st\<lparr>accumulated_tool_calls :=
                            AList.update tool_id (tool_call\<lparr>ac_arguments := arguments\<rparr>)
                              (accumulated_tool_calls st)\<rparr>
              in case run_tool (st_engine st1) (Some (ac_name tool_call)) arguments of
                   (Inl ex, eng) \<Rightarrow> yield_error (st1\<lparr>st_engine := eng\<rparr>) tool_call ex
                 | (Inr res, eng) \<Rightarrow>
                     (None,
                      yield_chunk
                        (st1\<lparr>st_engine := append_message eng (tool_message lib tool_id res)\<rparr>)
                        (content_chunk (tool_message_text lib res))))))"

text \<open>The loop itself: the accumulated calls in the order of the dict; an exception ends it.\<close>

fun execute_all ::
  "Lib \<Rightarrow> StreamState \<Rightarrow> (string \<times> AccumulatedCall) list \<Rightarrow> exn option \<times> StreamState" where
  "execute_all lib st [] = (None, st)"
| "execute_all lib st (item # items) =
     (case execute_accumulated lib st item of
        (Some ex, st') \<Rightarrow> (Some ex, st')
      | (None, st') \<Rightarrow> execute_all lib st' items)"

text \<open>
  One item of the feed with tools: the \<open>if\<close>/\<open>elif\<close> chain of the loop body. Indexing
  the inner dict of \<open>tool_call_start\<close> raises \<open>KeyError\<close> when \<open>id\<close> or \<open>name\<close> is
  missing; that exception, like one that leaves the loop at \<open>stop\<close>, ends the feed loop.
\<close>

definition stream_chunk :: "Lib \<Rightarrow> bool \<Rightarrow> StreamState \<Rightarrow> ResponseData \<Rightarrow> exn option \<times> StreamState" where
  "stream_chunk lib thinking st chunk_data =
     (if rd_tool_call_start chunk_data \<noteq> None then
        (case rd_tool_call_start chunk_data of
           Some (None, n) \<Rightarrow> (Some (Exn ExceptionClass ''KeyError'' ''id''), st)
         | Some (Some i, None) \<Rightarrow> (Some (Exn ExceptionClass ''KeyError'' ''name''), st)
         | Some (Some i, Some n) \<Rightarrow>
             (None,
              st\<lparr>current_tool_call := Some i,
                 accumulated_tool_calls :=
                   AList.update i \<lparr>ac_id = i, ac_name = n, ac_arguments = JStr '''',
                                   ac_arguments_json = ''''\<rparr>
                     (accumulated_tool_calls st)\<rparr>)
         | None \<Rightarrow> (None, st))
      else if rd_tool_call_delta chunk_data \<noteq> None \<and> current_tool_call st \<noteq> None then
        (case (rd_tool_call_delta chunk_data, current_tool_call st) of
           (Some partial_json, Some cur) \<Rightarrow>
             (None,
              st\<lparr>accumulated_tool_calls :=
                   AList.map_entry cur
                     (\<lambda>tc. tc\<lparr>ac_arguments_json :=
                                 ac_arguments_json tc @ get_default partial_json ''''\<rparr>)
                     (accumulated_tool_calls st)\<rparr>)
         | _ \<Rightarrow> (None, st))
      else if rd_content chunk_data \<noteq> None then
        (None, yield_chunk st (content_chunk (get_default (rd_content chunk_data) '''')))
      else if get_default (rd_stop chunk_data) False then
        execute_all lib st (accumulated_tool_calls st)
      else
        (let response_chunk = process_response lib chunk_data thinking
         in if cr_content response_chunk \<noteq> '''' then (None, yield_chunk st response_chunk)
            else (None, st)))"

text \<open>The \<open>async for\<close> over the feed with tools: an exception ends it.\<close>

fun consume_feed :: "Lib \<Rightarrow> bool \<Rightarrow> StreamState \<Rightarrow> ResponseData list \<Rightarrow> exn option \<times> StreamState" where
  "consume_feed lib thinking st [] = (None, st)"
| "consume_feed lib thinking st (chunk_data # rest) =
     (case stream_chunk lib thinking st chunk_data of
        (Some ex, st') \<Rightarrow> (Some ex, st')
      | (None, st') \<Rightarrow> consume_feed lib thinking st' rest)"

text \<open>The \<open>async for\<close> over the plain feed: every text chunk is accumulated and yielded.\<close>

definition consume_plain :: "StreamState \<Rightarrow> string list \<Rightarrow> StreamState" where
  "consume_plain st chunks = foldl (\<lambda>s content_chunk_text. yield_chunk s (content_chunk content_chunk_text)) st chunks"

definition final_message :: "StreamState \<Rightarrow> Message" where
  "final_message st =
     (let tool_calls_list =
            map (\<lambda>(tool_id, tool_call).
                   JObj [(''id'', JStr tool_id), (''name'', JStr (ac_name tool_call)),
                         (''arguments'', ac_arguments tool_call)])
                (accumulated_tool_calls st)
      in \<lparr>role = ASSISTANT, content = accumulated_content st,
          tool_calls = (if tool_calls_list \<noteq> [] then Some tool_calls_list else None),
          tool_call_id = None\<rparr>)"

text \<open>
  \<open>stream_message\<close>, run to the end of the generator: the chunks it yields, the
  exception it raises if any, and the engine afterwards. The feed of the provider is a
  list of items and the exception, if any, that the provider raises after them.
\<close>

definition stream_message ::
  "Lib \<Rightarrow> Provider \<Rightarrow> ChatEngine \<Rightarrow> string \<Rightarrow> bool option \<Rightarrow> json list option \<Rightarrow> bool option
     \<Rightarrow> ChatResponse list \<times> exn option \<times> ChatEngine" where
  "stream_message lib prov e txt thinking_mode tools_arg enable_tools_arg =
     (let thinking = get_default thinking_mode (enable_thinking (config e));
          with_tools = use_tools prov e tools_arg enable_tools_arg;
          tool_dicts = get_default (available_tools prov e tools_arg enable_tools_arg) [];
          e1 = append_message e (user_message lib thinking txt);
          msgs = get_messages_for_provider (conversation e1);
          st0 = \<lparr>st_engine = e1, accumulated_content = '''', accumulated_tool_calls = [],
                 current_tool_call = None, yielded = []\<rparr>;
          consumed =
            (if with_tools then
               (case p_stream_message_with_tools prov msgs tool_dicts of
                  (chunks, feed_ex) \<Rightarrow>
                    (case consume_feed lib thinking
                            (st0\<lparr>st_engine := log_event e1 (ProviderStreamMessageWithTools msgs tool_dicts)\<rparr>)
                            chunks of
                       (Some ex, st) \<Rightarrow> (Some ex, st)
                     | (None, st) \<Rightarrow> (feed_ex, st)))
             else
               (case p_stream_message prov msgs of
                  (chunks, feed_ex) \<Rightarrow>
                    (feed_ex,
                     consume_plain (st0\<lparr>st_engine := log_event e1 (ProviderStreamMessage msgs)\<rparr>) chunks)))
      in case consumed of
           (Some ex, st) \<Rightarrow>
             (case pop_and_raise (st_engine st) ex of (ex', e3) \<Rightarrow> (yielded st, Some ex', e3))
         | (None, st) \<Rightarrow>
             (yielded st, None, append_message (st_engine st) (final_message st)))"

text \<open>The items of the feed as the providers build them: dicts with a single key.\<close>

definition start_event :: "string \<Rightarrow> string \<Rightarrow> ResponseData" where
  "start_event i n = empty_data\<lparr>rd_tool_call_start := Some (Some i, Some n)\<rparr>"

definition delta_event :: "string option \<Rightarrow> ResponseData" where
  "delta_event partial_json = empty_data\<lparr>rd_tool_call_delta := Some partial_json\<rparr>"

definition content_event :: "string \<Rightarrow> ResponseData" where
  "content_event txt = empty_data\<lparr>rd_content := Some txt\<rparr>"

definition stop_event :: ResponseData where
  "stop_event = empty_data\<lparr>rd_stop := Some True\<rparr>"

section \<open>Message and session serialization (providers/base.py, core/session.py)\<close>

text \<open>\<open>Message.to_dict\<close>: the optional keys are written only when their value is truthy.\<close>

definition Message_to_dict :: "Message \<Rightarrow> json" where
  "Message_to_dict m =
     JObj ([(''role'', JStr (role_value (role m))), (''content'', JStr (content m))]
           @ (case tool_calls m of
                Some tcs \<Rightarrow> if tcs \<noteq> [] then [(''tool_calls'', JList tcs)] else []
              | None \<Rightarrow> [])
           @ (case tool_call_id m of
                Some i \<Rightarrow> if i \<noteq> '''' then [(''tool_call_id'', JStr i)] else []
              | None \<Rightarrow> []))"

text \<open>
  Reading a dict: \<open>data[key]\<close> raises \<open>KeyError\<close> on a missing key, \<open>data.get(key)\<close>
  gives \<open>None\<close>. The dataclasses declare the types of their fields; a stored value of
  another JSON type is reported as a \<open>TypeError\<close> by the model (Python would keep the
  ill-typed value).
\<close>

definition subscript :: "(string \<times> json) list \<Rightarrow> string \<Rightarrow> exn + json" where
  "subscript kvs k = (case map_of kvs k of None \<Rightarrow> Inl (Exn ExceptionClass ''KeyError'' k) | Some v \<Rightarrow> Inr v)"

definition and_then :: "exn + 'a \<Rightarrow> ('a \<Rightarrow> exn + 'b) \<Rightarrow> exn + 'b" where
  "and_then r f = (case r of Inl ex \<Rightarrow> Inl ex | Inr v \<Rightarrow> f v)"

fun as_str :: "json \<Rightarrow> exn + string" where
  "as_str (JStr s) = Inr s"
| "as_str v = Inl (Exn ExceptionClass ''TypeError'' ''str expected'')"

fun as_int :: "json \<Rightarrow> exn + int" where
  "as_int (JInt i) = Inr i"
| "as_int v = Inl (Exn ExceptionClass ''TypeError'' ''int expected'')"

fun as_dict :: "json \<Rightarrow> exn + (string \<times> json) list" where
  "as_dict (JObj kvs) = Inr kvs"
| "as_dict v = Inl (Exn ExceptionClass ''TypeError'' ''dict expected'')"

fun as_list :: "json \<Rightarrow> exn + json list" where
  "as_list (JList vs) = Inr vs"
| "as_list v = Inl (Exn ExceptionClass ''TypeError'' ''list expected'')"

fun optional_str :: "json option \<Rightarrow> exn + string option" where
  "optional_str None = Inr None"
| "optional_str (Some JNull) = Inr None"
| "optional_str (Some (JStr s)) = Inr (Some s)"
| "optional_str (Some v) = Inl (Exn ExceptionClass ''TypeError'' ''str or None expected'')"

fun optional_list :: "json option \<Rightarrow> exn + json list option" where
  "optional_list None = Inr None"
| "optional_list (Some JNull) = Inr None"
| "optional_list (Some (JList vs)) = Inr (Some vs)"
| "optional_list (Some v) = Inl (Exn ExceptionClass ''TypeError'' ''list or None expected'')"

text \<open>Running a fallible function over a list; the first exception ends it.\<close>

fun map_result :: "('a \<Rightarrow> exn + 'b) \<Rightarrow> 'a list \<Rightarrow> exn + 'b list" where
  "map_result f [] = Inr []"
| "map_result f (x # xs) =
     and_then (f x) (\<lambda>y. and_then (map_result f xs) (\<lambda>ys. Inr (y # ys)))"

text \<open>\<open>Message.from_dict\<close>.\<close>

definition Message_from_dict :: "json \<Rightarrow> exn + Message" where
  "Message_from_dict data =
     and_then (as_dict data) (\<lambda>kvs.
     and_then (subscript kvs ''role'') (\<lambda>r.
     and_then (as_str r) (\<lambda>role_text.
     and_then (MessageRole_of role_text) (\<lambda>msg_role.
     and_then (subscript kvs ''content'') (\<lambda>c.
     and_then (as_str c) (\<lambda>content_text.
     and_then (optional_list (map_of kvs ''tool_calls'')) (\<lambda>tcs.
     and_then (optional_str (map_of kvs ''tool_call_id'')) (\<lambda>tid.
       Inr \<lparr>role = msg_role, content = content_text, tool_calls = tcs, tool_call_id = tid\<rparr>))))))))"

text \<open>\<open>@dataclass class SessionInfo\<close>; \<open>asdict\<close> and the constructor call \<open>SessionInfo(**info_data)\<close>.\<close>

record SessionInfo =
  session_id :: string
  title :: string
  created_at :: string
  updated_at :: string
  provider :: string
  model :: string
  message_count :: int
  tags :: "string list"

definition SessionInfo_asdict :: "SessionInfo \<Rightarrow> json" where
  "SessionInfo_asdict i =
     JObj [(''session_id'', JStr (session_id i)), (''title'', JStr (title i)),
           (''created_at'', JStr (created_at i)), (''updated_at'', JStr (updated_at i)),
           (''provider'', JStr (provider i)), (''model'', JStr (model i)),
           (''message_count'', JInt (message_count i)),
           (''tags'', JList (map JStr (tags i)))]"

definition SessionInfo_fields :: "string list" where
  "SessionInfo_fields =
     [''session_id'', ''title'', ''created_at'', ''updated_at'', ''provider'', ''model'',
      ''message_count'', ''tags'']"

text \<open>
  A keyword that is no field, or a missing field without a default, is a \<open>TypeError\<close> of
  the call; \<open>tags\<close> defaults to the empty list.
\<close>

definition SessionInfo_of_kwargs :: "(string \<times> json) list \<Rightarrow> exn + SessionInfo" where
  "SessionInfo_of_kwargs kvs =
     (if list_ex (\<lambda>k. k \<notin> set SessionInfo_fields) (map fst kvs)
      then Inl (Exn ExceptionClass ''TypeError'' ''unexpected keyword argument'')
      else
        (let field = (\<lambda>k. case map_of kvs k of
                              None \<Rightarrow> Inl (Exn ExceptionClass ''TypeError'' ''missing required argument'')
                            | Some v \<Rightarrow> Inr v)
         in and_then (and_then (field ''session_id'') as_str) (\<lambda>sid.
            and_then (and_then (field ''title'') as_str) (\<lambda>ttl.
            and_then (and_then (field ''created_at'') as_str) (\<lambda>cre.
            and_then (and_then (field ''updated_at'') as_str) (\<lambda>upd.
            and_then (and_then (field ''provider'') as_str) (\<lambda>prv.
            and_then (and_then (field ''model'') as_str) (\<lambda>mdl.
            and_then (and_then (field ''message_count'') as_int) (\<lambda>cnt.
            and_then (case map_of kvs ''tags'' of
                        None \<Rightarrow> Inr []
                      | Some v \<Rightarrow> and_then (as_list v) (map_result as_str)) (\<lambda>tgs.
              Inr \<lparr>session_id = sid, title = ttl, created_at = cre, updated_at = upd,
                   provider = prv, model = mdl, message_count = cnt, tags = tgs\<rparr>))))))))))"

text \<open>\<open>@dataclass class ChatSession\<close> with \<open>to_dict\<close> and \<open>from_dict\<close>.\<close>

record ChatSession =
  info :: SessionInfo
  session_conversation :: Conversation

definition ChatSession_to_dict :: "ChatSession \<Rightarrow> json" where
  "ChatSession_to_dict s =
     JObj [(''info'', SessionInfo_asdict (info s)),
           (''conversation'',
            JObj [(''messages'', JList (map Message_to_dict (messages (session_conversation s)))),
                  (''max_history'', JInt (max_history (session_conversation s))),
                  (''system_prompt'',
                   (case system_prompt (session_conversation s) of
                      None \<Rightarrow> JNull | Some p \<Rightarrow> JStr p))])]"

definition ChatSession_from_dict :: "json \<Rightarrow> exn + ChatSession" where
  "ChatSession_from_dict data =
     and_then (as_dict data) (\<lambda>kvs.
     and_then (subscript kvs ''info'') (\<lambda>info_data.
     and_then (as_dict info_data) (\<lambda>info_kvs.
     and_then (SessionInfo_of_kwargs info_kvs) (\<lambda>session_info.
     and_then (subscript kvs ''conversation'') (\<lambda>conv_data.
     and_then (as_dict conv_data) (\<lambda>conv_kvs.
     and_then (subscript conv_kvs ''messages'') (\<lambda>ms.
     and_then (as_list ms) (\<lambda>msg_dicts.
     and_then (map_result Message_from_dict msg_dicts) (\<lambda>msgs.
     and_then (case map_of conv_kvs ''max_history'' of
                 None \<Rightarrow> Inr 50 | Some v \<Rightarrow> as_int v) (\<lambda>mh.
     and_then (optional_str (map_of conv_kvs ''system_prompt'')) (\<lambda>sp.
       Inr \<lparr>info = session_info,
            session_conversation =
              \<lparr>messages = msgs, max_history = mh, system_prompt = sp\<rparr>\<rparr>)))))))))))"

text \<open>
  What a message is after one round trip: an empty \<open>tool_calls\<close> list and an empty
  \<open>tool_call_id\<close> string are not written and so come back as \<open>None\<close>.
\<close>

definition normalize_message :: "Message \<Rightarrow> Message" where
  "normalize_message m =
     m\<lparr>tool_calls := (if tool_calls m = Some [] then None else tool_calls m),
       tool_call_id := (if tool_call_id m = Some '''' then None else tool_call_id m)\<rparr>"

definition no_empty_optionals :: "Message \<Rightarrow> bool" where
  "no_empty_optionals m = (tool_calls m \<noteq> Some [] \<and> tool_call_id m \<noteq> Some '''')"

definition normalize_session :: "ChatSession \<Rightarrow> ChatSession" where
  "normalize_session s =
     s\<lparr>session_conversation :=
         (session_conversation s)\<lparr>messages := map normalize_message (messages (session_conversation s))\<rparr>\<rparr>"

section \<open>The OpenRouter provider (providers/openrouter.py)\<close>

text \<open>\<open>@dataclass class ModelInfo\<close>; the two cost fields are decimal fractions.\<close>

record ModelInfo =
  mi_name :: string
  mi_max_tokens :: int
  mi_supports_streaming :: bool
  mi_supports_tools :: bool
  mi_supports_thinking :: bool
  mi_context_window :: int
  mi_input_cost_per_1k :: real
  mi_output_cost_per_1k :: real

definition not_yet_implemented :: exn where
  "not_yet_implemented = Exn ExceptionClass ''NotImplementedError'' ''OpenRouter provider not yet implemented''"

definition openrouter_create_message :: "Message list \<Rightarrow> exn + string" where
  "openrouter_create_message msgs = Inl not_yet_implemented"

definition openrouter_create_message_with_tools :: "Message list \<Rightarrow> json list \<Rightarrow> exn + ResponseData" where
  "openrouter_create_message_with_tools msgs tool_dicts = Inl not_yet_implemented"

text \<open>
  \<open>stream_message\<close> and \<open>stream_message_with_tools\<close> are declared \<open>async def\<close> and
  contain no \<open>yield\<close>: a call gives a coroutine, not an asynchronous generator, and the
  body with its \<open>raise NotImplementedError\<close> would run only if the coroutine were awaited.
  The engine consumes both with \<open>async for\<close>, which raises \<open>TypeError\<close> on a coroutine
  before any item: the feed is empty and ends in that exception.
\<close>

definition async_for_type_error :: exn where
  "async_for_type_error =
     Exn ExceptionClass ''TypeError''
       ([CHR 39] @ ''async for'' @ [CHR 39] @ '' requires an object with __aiter__ method, got coroutine'')"

definition openrouter_stream_message :: "Message list \<Rightarrow> string list \<times> exn option" where
  "openrouter_stream_message msgs = ([], Some async_for_type_error)"

definition openrouter_stream_message_with_tools ::
  "Message list \<Rightarrow> json list \<Rightarrow> ResponseData list \<times> exn option" where
  "openrouter_stream_message_with_tools msgs tool_dicts = ([], Some async_for_type_error)"

definition openrouter_get_model_info :: "string \<Rightarrow> exn + ModelInfo" where
  "openrouter_get_model_info model_name =
     Inr \<lparr>mi_name = model_name, mi_max_tokens = 4096, mi_supports_streaming = True,
          mi_supports_tools = True, mi_supports_thinking = False, mi_context_window = 200000,
          mi_input_cost_per_1k = 1 / 100, mi_output_cost_per_1k = 3 / 100\<rparr>"

definition openrouter_list_models :: "exn + ModelInfo list" where
  "openrouter_list_models =
     and_then (openrouter_get_model_info ''anthropic/claude-3.5-sonnet'') (\<lambda>mi. Inr [mi])"

section \<open>The tool executor's contract\<close>

text \<open>The tool a name stands for: the instance, or else the instance its registered class builds.\<close>

definition lookup_tool :: "ToolRegistry \<Rightarrow> string option \<Rightarrow> BaseTool option" where
  "lookup_tool registry nm =
     (case nm of
        None \<Rightarrow> None
      | Some n \<Rightarrow>
          (case map_of (reg_tools registry) n of
             Some tool \<Rightarrow> Some tool
           | None \<Rightarrow> map_of (reg_tool_classes registry) n))"

text \<open>
  What the specification asks of the executor for one tool-call request, given the registry
  and the timeout in force: the tool's own result when it returns; a failed result naming
  the timeout when the call exceeds it (a tool that itself raises \<open>asyncio.TimeoutError\<close>
  is reported the same way); a failed result carrying the message of any other exception
  of the \<open>Exception\<close> hierarchy; a failed result for a name that is not registered. An
  exception outside the \<open>Exception\<close> hierarchy is the one case with no result.
\<close>

definition tool_reply :: "ToolRegistry \<Rightarrow> int \<Rightarrow> ToolCallRequest \<Rightarrow> exn + ToolResult" where
  "tool_reply registry timeout tc =
     (case lookup_tool registry (req_name tc) of
        None \<Rightarrow>
          Inr \<lparr>success = False, result = JNull,
               error = Some (''Tool '' @ [CHR 39] @ str_opt (req_name tc) @ [CHR 39]
                             @ '' not found in registry''),
               metadata = []\<rparr>
      | Some tool \<Rightarrow>
          (case tool_execute tool (get_default (req_arguments tc) (JObj [])) timeout of
             Returns res \<Rightarrow> Inr res
           | TimesOut \<Rightarrow>
               Inr \<lparr>success = False, result = JNull,
                    error = Some (''Tool execution timed out after '' @ str_int timeout @ '' seconds''),
                    metadata = []\<rparr>
           | Raises ex \<Rightarrow>
               (case exn_class_of ex of
                  TimeoutErrorClass \<Rightarrow>
                    Inr \<lparr>success = False, result = JNull,
                         error = Some (''Tool execution timed out after '' @ str_int timeout
                                       @ '' seconds''),
                         metadata = []\<rparr>
                | ExceptionClass \<Rightarrow>
                    Inr \<lparr>success = False, result = JNull,
                         error = Some (''Tool execution failed: '' @ exn_message ex),
                         metadata = []\<rparr>
                | BaseExceptionClass \<Rightarrow> Inl ex)))"

text \<open>
  The tool message the specification asks for: role \<open>tool\<close>, \<open>tool_call_id\<close> the id of
  the request, and as content the result, or the text \<open>Error: ...\<close> for a failed result.
\<close>

definition expected_tool_message :: "Lib \<Rightarrow> ToolCallRequest \<Rightarrow> ToolResult \<Rightarrow> Message" where
  "expected_tool_message lib tc res =
     \<lparr>role = TOOL,
      content = (if success res then py_str lib (result res)
                 else ''Error: '' @ (case error res of None \<Rightarrow> ''None'' | Some msg \<Rightarrow> msg)),
      tool_calls = None,
      tool_call_id = Some (case req_id tc of None \<Rightarrow> '''' | Some i \<Rightarrow> i)\<rparr>"

section \<open>One tool round\<close>

text \<open>
  The events of one tool round as the specification describes it: for each request, in
  the order of the list, its execution and then the appending of its tool message.
\<close>

definition tool_round_messages :: "Lib \<Rightarrow> ToolCallRequest list \<Rightarrow> ToolResult list \<Rightarrow> Message list" where
  "tool_round_messages lib tcs results =
     map (\<lambda>(tc, res). expected_tool_message lib tc res) (zip tcs results)"

definition tool_round :: "Lib \<Rightarrow> ToolCallRequest list \<Rightarrow> ToolResult list \<Rightarrow> event list" where
  "tool_round lib tcs results =
     concat (map (\<lambda>(tc, res).
                    [ToolExecution (req_name tc) (get_default (req_arguments tc) (JObj [])),
                     Appended (expected_tool_message lib tc res)])
                 (zip tcs results))"

section \<open>Correlation of tool messages with tool-call requests\<close>

text \<open>The ids that an assistant message lists in its \<open>tool_calls\<close>.\<close>

fun tool_call_dict_id :: "json \<Rightarrow> string list" where
  "tool_call_dict_id (JObj kvs) = (case map_of kvs ''id'' of Some (JStr i) \<Rightarrow> [i] | _ \<Rightarrow> [])"
| "tool_call_dict_id v = []"

definition message_tool_call_ids :: "Message \<Rightarrow> string list" where
  "message_tool_call_ids m = concat (map tool_call_dict_id (get_default (tool_calls m) []))"

text \<open>The messages that a stretch of the trace appended, in order.\<close>

fun appended :: "event list \<Rightarrow> Message list" where
  "appended [] = []"
| "appended (Appended m # evs) = m # appended evs"
| "appended (ev # evs) = appended evs"

text \<open>
  The property as the specification words it: every tool message carries a
  \<open>tool_call_id\<close> that occurs exactly once among the \<open>tool_calls\<close> ids of the assistant
  messages before it in the list.
\<close>

fun correlated_with_earlier :: "Message list \<Rightarrow> Message list \<Rightarrow> bool" where
  "correlated_with_earlier earlier [] = True"
| "correlated_with_earlier earlier (m # rest) =
     ((if role m = TOOL
       then (case tool_call_id m of
               None \<Rightarrow> False
             | Some i \<Rightarrow>
                 count_list (concat (map message_tool_call_ids
                                       (filter (\<lambda>a. role a = ASSISTANT) earlier))) i = 1)
       else True)
      \<and> correlated_with_earlier (earlier @ [m]) rest)"

definition tool_messages_answer_earlier_request :: "Message list \<Rightarrow> bool" where
  "tool_messages_answer_earlier_request msgs = correlated_with_earlier [] msgs"

text \<open>
  What the engine establishes for the messages of one turn: the last one is the assistant
  message, and every tool message before it carries an id that this assistant message
  lists in its \<open>tool_calls\<close>.
\<close>

definition answered_by_final_assistant :: "Message list \<Rightarrow> bool" where
  "answered_by_final_assistant turn =
     (turn \<noteq> [] \<and> role (last turn) = ASSISTANT \<and>
      list_all (\<lambda>m. role m \<noteq> TOOL \<or>
                     (case tool_call_id m of
                        None \<Rightarrow> False
                      | Some i \<Rightarrow> i \<in> set (message_tool_call_ids (last turn))))
               (butlast turn))"

text \<open>
  \<open>extends e e' evs\<close>: from \<open>e\<close> to \<open>e'\<close> the engine did \<open>evs\<close>, and the conversation
  changed only by \<open>add_message\<close> of the messages these events appended.
\<close>

definition extends :: "ChatEngine \<Rightarrow> ChatEngine \<Rightarrow> event list \<Rightarrow> bool" where
  "extends e e' evs =
     (trace e' = trace e @ evs \<and> conversation e' = add_messages (conversation e) (appended evs))"

text \<open>
  The invariant of the loop over the feed, relative to the engine \<open>e0\<close> at its start:
  what has been appended since are tool messages, each carrying the id of an entry of
  \<open>accumulated_tool_calls\<close>.
\<close>

definition feed_invariant :: "ChatEngine \<Rightarrow> StreamState \<Rightarrow> bool" where
  "feed_invariant e0 st =
     (\<exists>evs. extends e0 (st_engine st) evs \<and>
            list_all (\<lambda>m. role m = TOOL \<and>
                           tool_call_id m \<in> Some ` fst ` set (accumulated_tool_calls st))
                     (appended evs))"

text \<open>The messages appended between the engine states \<open>e\<close> and \<open>e'\<close> of one turn.\<close>

definition turn_messages :: "ChatEngine \<Rightarrow> ChatEngine \<Rightarrow> Message list" where
  "turn_messages e e' = appended (drop (length (trace e)) (trace e'))"

section \<open>Concrete inputs\<close>

text \<open>
  Tools for the examples. Each is cancelled before it starts when the timeout is not
  positive; otherwise \<open>slow\<close> never finishes, \<open>failing\<close> raises \<open>ValueError\<close>,
  \<open>inner_timeout\<close> raises \<open>asyncio.TimeoutError\<close> itself, \<open>queue\<close> raises
  \<open>multiprocessing.TimeoutError\<close> (an \<open>Exception\<close> of the same name but another class),
  \<open>interrupted\<close> raises \<open>KeyboardInterrupt\<close>, and \<open>echo\<close> returns.
\<close>

definition slow_tool :: BaseTool where
  "slow_tool = \<lparr>tool_name = ''slow'', tool_description = ''never finishes'',
                tool_parameters = JObj [], tool_execute = (\<lambda>arguments timeout. TimesOut)\<rparr>"

definition failing_tool :: BaseTool where
  "failing_tool = \<lparr>tool_name = ''failing'', tool_description = ''always raises'',
                tool_parameters = JObj [],
                tool_execute =
                  (\<lambda>arguments timeout.
                     if timeout \<le> 0 then TimesOut
                     else Raises (Exn ExceptionClass ''ValueError'' ''boom''))\<rparr>"

definition inner_timeout_tool :: BaseTool where
  "inner_timeout_tool = \<lparr>tool_name = ''inner_timeout'', tool_description = ''raises a timeout'',
                tool_parameters = JObj [],
                tool_execute =
                  (\<lambda>arguments timeout.
                     if timeout \<le> 0 then TimesOut
                     else Raises (Exn TimeoutErrorClass ''TimeoutError'' ''upstream''))\<rparr>"

definition queue_tool :: BaseTool where
  "queue_tool = \<lparr>tool_name = ''queue'', tool_description = ''raises a queue timeout'',
                tool_parameters = JObj [],
                tool_execute =
                  (\<lambda>arguments timeout.
                     if timeout \<le> 0 then TimesOut
                     else Raises (Exn ExceptionClass ''TimeoutError'' ''queue empty''))\<rparr>"

definition interrupted_tool :: BaseTool where
  "interrupted_tool = \<lparr>tool_name = ''interrupted'', tool_description = ''is interrupted'',
                tool_parameters = JObj [],
                tool_execute =
                  (\<lambda>arguments timeout.
                     if timeout \<le> 0 then TimesOut
                     else Raises (Exn BaseExceptionClass ''KeyboardInterrupt'' ''''))\<rparr>"

definition new_executor :: ToolExecutor where
  "new_executor = \<lparr>default_timeout = 30, execution_history = []\<rparr>"

definition test_lib :: Lib where
  "test_lib =
     \<lparr>py_str = (\<lambda>v. case v of JStr s \<Rightarrow> s | _ \<Rightarrow> ''value''),
      json_loads = (\<lambda>s. if s = ''{}'' then Inr (JObj []) else Inl (Exn ExceptionClass ''JSONDecodeError'' s)),
      create_thinking_prompt = (\<lambda>s. ''THINK: '' @ s),
      parse_thinking_response = (\<lambda>s. ('''', s))\<rparr>"

definition echo_tool :: BaseTool where
  "echo_tool = \<lparr>tool_name = ''echo'', tool_description = ''returns ok'',
                tool_parameters = JObj [],
                tool_execute =
                  (\<lambda>arguments timeout.
                     if timeout \<le> 0 then TimesOut
                     else Returns \<lparr>success = True, result = JStr ''ok'', error = None,
                                   metadata = []\<rparr>)\<rparr>"

definition test_engine :: ChatEngine where
  "test_engine =
     \<lparr>config = \<lparr>enable_thinking = False, enable_tools = True\<rparr>,
      conversation = new_conversation 50,
      tool_registry = \<lparr>reg_tools = [],
                       reg_tool_classes = [(''echo'', echo_tool), (''failing'', failing_tool),
                                           (''interrupted'', interrupted_tool)]\<rparr>,
      tool_executor = new_executor,
      trace = []\<rparr>"

definition request :: "string \<Rightarrow> string \<Rightarrow> ToolCallRequest" where
  "request i n = \<lparr>req_id = Some i, req_name = Some n, req_arguments = Some (JObj [])\<rparr>"

text \<open>A provider that asks for one tool call and whose follow-up \<open>create_message\<close> raises.\<close>

definition provider_followup_fails :: Provider where
  "provider_followup_fails =
     \<lparr>p_supports_tools = True,
      p_create_message = (\<lambda>msgs. Inl (Exn ExceptionClass ''ProviderError'' ''unavailable'')),
      p_create_message_with_tools =
        (\<lambda>msgs tool_dicts. Inr (empty_data\<lparr>rd_tool_calls := Some [request ''a'' ''echo'']\<rparr>)),
      p_stream_message = (\<lambda>msgs. ([], None)),
      p_stream_message_with_tools = (\<lambda>msgs tool_dicts. ([], None))\<rparr>"

text \<open>A provider that asks for two tool calls, the first to a tool that raises, and then replies.\<close>

definition provider_two_calls :: Provider where
  "provider_two_calls =
     \<lparr>p_supports_tools = True,
      p_create_message = (\<lambda>msgs. Inr ''done''),
      p_create_message_with_tools =
        (\<lambda>msgs tool_dicts.
           Inr (empty_data\<lparr>rd_tool_calls := Some [request ''a'' ''failing'', request ''b'' ''echo'']\<rparr>)),
      p_stream_message = (\<lambda>msgs. ([], None)),
      p_stream_message_with_tools = (\<lambda>msgs tool_dicts. ([], None))\<rparr>"

text \<open>
  A provider that asks for two tool calls, the first to the tool that is interrupted, and
  would then reply.
\<close>

definition provider_interrupted_call :: Provider where
  "provider_interrupted_call =
     \<lparr>p_supports_tools = True,
      p_create_message = (\<lambda>msgs. Inr ''done''),
      p_create_message_with_tools =
        (\<lambda>msgs tool_dicts.
           Inr (empty_data\<lparr>rd_tool_calls := Some [request ''a'' ''interrupted'', request ''b'' ''echo'']\<rparr>)),
      p_stream_message = (\<lambda>msgs. ([], None)),
      p_stream_message_with_tools = (\<lambda>msgs tool_dicts. ([], None))\<rparr>"

text \<open>
  The scenario of the specification: the argument text
  \<open>{"operation":"add","a":1,"b":2}\<close> arrives in two fragments, split after \<open>{"op\<close>.
\<close>

definition fragment1 :: string where
  "fragment1 = ''{'' @ [CHR 0x22] @ ''op''"

definition fragment2 :: string where
  "fragment2 = ''eration'' @ [CHR 0x22] @ '':'' @ [CHR 0x22] @ ''add'' @ [CHR 0x22] @ '','' @
               [CHR 0x22] @ ''a'' @ [CHR 0x22] @ '':1,'' @ [CHR 0x22] @ ''b'' @ [CHR 0x22] @ '':2}''"

definition calc_arguments :: json where
  "calc_arguments = JObj [(''operation'', JStr ''add''), (''a'', JInt 1), (''b'', JInt 2)]"

definition scenario_lib :: Lib where
  "scenario_lib =
     \<lparr>py_str = (\<lambda>v. case v of JInt k \<Rightarrow> str_int k | JStr s \<Rightarrow> s | _ \<Rightarrow> ''value''),
      json_loads = (\<lambda>s. if s = fragment1 @ fragment2 then Inr calc_arguments
                         else Inl (Exn ExceptionClass ''JSONDecodeError'' s)),
      create_thinking_prompt = (\<lambda>s. ''THINK: '' @ s),
      parse_thinking_response = (\<lambda>s. ('''', s))\<rparr>"

definition calc_tool :: BaseTool where
  "calc_tool = \<lparr>tool_name = ''calc'', tool_description = ''adds'',
                tool_parameters = JObj [],
                tool_execute =
                  (\<lambda>arguments timeout.
                     if timeout \<le> 0 then TimesOut
                     else if arguments = calc_arguments
                     then Returns \<lparr>success = True, result = JInt 3, error = None, metadata = []\<rparr>
                     else Raises (Exn ExceptionClass ''ValueError'' ''unsupported''))\<rparr>"

definition scenario_engine :: ChatEngine where
  "scenario_engine =
     test_engine\<lparr>tool_registry := \<lparr>reg_tools = [], reg_tool_classes = [(''calc'', calc_tool)]\<rparr>\<rparr>"

definition scenario_provider :: Provider where
  "scenario_provider =
     \<lparr>p_supports_tools = True,
      p_create_message = (\<lambda>msgs. Inr ''done''),
      p_create_message_with_tools = (\<lambda>msgs tool_dicts. Inr empty_data),
      p_stream_message = (\<lambda>msgs. ([], None)),
      p_stream_message_with_tools =
        (\<lambda>msgs tool_dicts.
           ([start_event ''a'' ''calc'', delta_event (Some fragment1), delta_event (Some fragment2),
             stop_event], None))\<rparr>"

definition idle_state :: StreamState where
  "idle_state =
     \<lparr>st_engine = test_engine, accumulated_content = '''', accumulated_tool_calls = [],
      current_tool_call = None, yielded = []\<rparr>"

text \<open>
  A session with a system, a user, an assistant and a tool message and two tags, and a
  session whose tool message carries the empty id the engine gives a tool call that came
  without an \<open>id\<close> key.
\<close>

definition sample_info :: SessionInfo where
  "sample_info =
     \<lparr>session_id = ''1a2b3c4d'', title = ''Chat'', created_at = ''2024-01-01T00:00:00'',
      updated_at = ''2024-01-01T00:05:00'', provider = ''anthropic'', model = ''m'',
      message_count = 4, tags = [''work'', ''demo'']\<rparr>"

definition sample_session :: ChatSession where
  "sample_session =
     \<lparr>info = sample_info,
      session_conversation =
        \<lparr>messages =
           [mk_msg SYSTEM ''be brief'', mk_msg USER ''add 1 and 2'',
            \<lparr>role = TOOL, content = ''3'', tool_calls = None, tool_call_id = Some ''a''\<rparr>,
            \<lparr>role = ASSISTANT, content = ''3'',
             tool_calls = Some [JObj [(''id'', JStr ''a''), (''name'', JStr ''calc''),
                                      (''arguments'', calc_arguments)]],
             tool_call_id = None\<rparr>],
         max_history = 50, system_prompt = Some ''be brief''\<rparr>\<rparr>"

definition session_with_empty_id :: ChatSession where
  "session_with_empty_id =
     \<lparr>info = sample_info,
      session_conversation =
        \<lparr>messages = [\<lparr>role = TOOL, content = ''ok'', tool_calls = None, tool_call_id = Some ''''\<rparr>],
         max_history = 50, system_prompt = None\<rparr>\<rparr>"

section \<open>History trimming\<close>

lemma set_py_slice_from: "set (py_slice_from s xs) \<subseteq> set xs"
  unfolding py_slice_from_def Let_def by (rule set_drop_subset)

lemma filter_system_py_slice_from:
  "filter is_system (py_slice_from s (filter (\<lambda>msg. \<not> is_system msg) xs)) = []"
  using set_py_slice_from [of s "filter (\<lambda>msg. \<not> is_system msg) xs"]
  by (auto simp: filter_empty_conv)

lemma trim_history_keeps_system:
  "filter is_system (messages (trim_history c)) = filter is_system (messages c)"
  by (simp add: trim_history_def Let_def filter_system_py_slice_from)

lemma add_message_keeps_system:
  "filter is_system (messages (add_message c m)) = filter is_system (messages c @ [m])"
  by (simp add: add_message_def trim_history_keeps_system)

lemma add_message_max_history [simp]:
  "max_history (add_message c m) = max_history c"
  by (simp add: add_message_def trim_history_def Let_def)

lemma add_message_length_strict:
  assumes "int (length (filter is_system (messages c @ [m]))) < max_history c"
  shows "int (length (messages (add_message c m))) \<le> max_history c"
proof -
  let ?xs = "messages c @ [m]"
  let ?k = "max_history c - int (length (filter is_system ?xs))"
  have k: "0 < ?k" using assms by simp
  have "int (length (py_slice_from (- ?k) (filter (\<lambda>msg. \<not> is_system msg) ?xs))) \<le> ?k"
    using k by (auto simp: py_slice_from_def Let_def)
  then show ?thesis
    by (auto simp: add_message_def trim_history_def Let_def)
qed

text \<open>
  C2. The specification: whenever \<open>max_history \<ge> count(system)\<close>, after trimming every
  system message is still there and the length is at most \<open>max_history\<close>. The code
  at \<open>max_history = count(system)\<close>: a conversation with \<open>max_history = 1\<close> receives one
  system message and one user message; the slice is \<open>other_msgs[-0:]\<close>, the whole
  list, so both messages stay and the length 2 exceeds \<open>max_history\<close>.
\<close>

theorem trim_history_exceeds_max_history_at_equality:
  "(let c = add_messages (new_conversation 1) [mk_msg SYSTEM ''s'', mk_msg USER ''u'']
    in int (length (filter is_system (messages c))) \<le> max_history c
       \<and> messages c = [mk_msg SYSTEM ''s'', mk_msg USER ''u'']
       \<and> \<not> int (length (messages c)) \<le> max_history c)"
  by (simp add: add_messages_def new_conversation_def add_message_def trim_history_def
      py_slice_from_def is_system_def mk_msg_def)

text \<open>
  C3. The specification: when the system messages outnumber \<open>max_history\<close>, the non-system slice is
  clamped to empty and only system messages remain. The code: appending
  \<open>u1, s1, u2, u3, s2\<close> to an empty conversation with \<open>max_history = 1\<close> ends with two
  system messages (more than \<open>max_history\<close>) and the slice \<open>other_msgs[1:]\<close>, which
  keeps the non-system messages \<open>u2\<close> and \<open>u3\<close>.
\<close>

theorem trim_history_negative_slice_keeps_others:
  "(let c = add_messages (new_conversation 1)
              [mk_msg USER ''u1'', mk_msg SYSTEM ''s1'', mk_msg USER ''u2'',
               mk_msg USER ''u3'', mk_msg SYSTEM ''s2'']
    in int (length (filter is_system (messages c))) > max_history c
       \<and> messages c = [mk_msg SYSTEM ''s1'', mk_msg SYSTEM ''s2'',
                        mk_msg USER ''u2'', mk_msg USER ''u3''])"
  by (simp add: add_messages_def new_conversation_def add_message_def trim_history_def
      py_slice_from_def is_system_def mk_msg_def)

section \<open>Tool executor\<close>

lemma last_record_execution:
  "last (execution_history (record_execution ex nm a res et)) =
     \<lparr>rec_tool_name = nm, rec_arguments = a, rec_success = success res,
      rec_error_type = et, rec_error_message = (if \<not> success res then error res else None)\<rparr>"
  by (simp add: record_execution_def Let_def py_slice_from_def)

lemma default_timeout_record_execution [simp]:
  "default_timeout (record_execution ex nm a res et) = default_timeout ex"
  by (simp add: record_execution_def Let_def)

text \<open>
  C5, as the code has it. \<open>ToolExecutor.execute\<close> selects its handler by the class of the
  exception. When the tool returns, so does \<open>execute\<close>, with the tool's result. When the
  call exceeds the timeout, or the tool itself raises \<open>asyncio.TimeoutError\<close>, the result
  has \<open>success = False\<close> and an error naming the effective timeout in seconds, and the
  history entry written last records the kind \<open>timeout\<close>. When the tool raises any other
  exception of the \<open>Exception\<close> hierarchy, the result has \<open>success = False\<close>,
  \<open>result = None\<close> and an error containing the exception's message, and the history
  entry written last records the exception's class name. An exception outside the
  \<open>Exception\<close> hierarchy leaves \<open>execute\<close> and nothing is recorded; this is the only
  case in which \<open>execute\<close> does not return a \<open>ToolResult\<close>.
\<close>

theorem execute_returns_or_propagates:
  assumes t: "t = effective_timeout ex timeout"
    and outcome: "outcome = tool_execute tool arguments t"
    and run: "run = execute ex tool arguments timeout"
  shows "(\<forall>res. outcome = Returns res \<longrightarrow> fst run = Inr res)
   \<and> (outcome = TimesOut \<or> (\<exists>kind msg. outcome = Raises (Exn TimeoutErrorClass kind msg)) \<longrightarrow>
        fst run =
          Inr \<lparr>success = False, result = JNull,
               error = Some (''Tool execution timed out after '' @ str_int t @ '' seconds''),
               metadata = []\<rparr>
        \<and> rec_error_type (last (execution_history (snd run))) = Some ''timeout'')
   \<and> (\<forall>kind msg. outcome = Raises (Exn ExceptionClass kind msg) \<longrightarrow>
        fst run =
          Inr \<lparr>success = False, result = JNull,
               error = Some (''Tool execution failed: '' @ msg), metadata = []\<rparr>
        \<and> rec_error_type (last (execution_history (snd run))) = Some kind)
   \<and> (\<forall>kind msg. outcome = Raises (Exn BaseExceptionClass kind msg) \<longrightarrow>
        run = (Inl (Exn BaseExceptionClass kind msg), ex))
   \<and> ((\<exists>res. fst run = Inr res) =
        (\<forall>kind msg. outcome \<noteq> Raises (Exn BaseExceptionClass kind msg)))"
proof -
  have te: "tool_execute tool arguments (effective_timeout ex timeout) = outcome"
    using t outcome by simp
  have t': "effective_timeout ex timeout = t"
    using t by simp
  note run = run [unfolded execute_def await_tool_def Let_def]
  show ?thesis
  proof (intro conjI allI impI)
  fix res
  assume "outcome = Returns res"
  then show "fst run = Inr res"
    using te t' run by simp
next
  assume a: "outcome = TimesOut \<or> (\<exists>kind msg. outcome = Raises (Exn TimeoutErrorClass kind msg))"
  then show "fst run =
          Inr \<lparr>success = False, result = JNull,
               error = Some (''Tool execution timed out after '' @ str_int t @ '' seconds''),
               metadata = []\<rparr>"
    using te t' run by (auto simp: failed_result_def)
  from a show "rec_error_type (last (execution_history (snd run))) = Some ''timeout''"
    using te t' run by (auto simp: last_record_execution)
next
  fix kind msg
  assume a: "outcome = Raises (Exn ExceptionClass kind msg)"
  then show "fst run =
          Inr \<lparr>success = False, result = JNull,
               error = Some (''Tool execution failed: '' @ msg), metadata = []\<rparr>"
    using te t' run by (simp add: failed_result_def)
  from a show "rec_error_type (last (execution_history (snd run))) = Some kind"
    using te t' run by (simp add: last_record_execution)
next
  fix kind msg
  assume "outcome = Raises (Exn BaseExceptionClass kind msg)"
  then show "run = (Inl (Exn BaseExceptionClass kind msg), ex)"
    using te t' run by simp
next
  show "(\<exists>res. fst run = Inr res) =
        (\<forall>kind msg. outcome \<noteq> Raises (Exn BaseExceptionClass kind msg))"
  proof (cases outcome)
    case (Returns res)
    then show ?thesis
      using te t' run by simp
  next
    case TimesOut
    then show ?thesis
      using te t' run by simp
  next
    case (Raises e)
    obtain c kind msg where e: "e = Exn c kind msg" by (cases e)
    show ?thesis
      using te t' run Raises e
      by (cases c) simp_all
  qed
  qed
qed

theorem execute_returns_or_propagates_witness:
  "fst (execute new_executor echo_tool (JObj []) None) =
     Inr \<lparr>success = True, result = JStr ''ok'', error = None, metadata = []\<rparr>
   \<and> fst (execute new_executor slow_tool (JObj []) (Some 5)) =
     Inr \<lparr>success = False, result = JNull,
          error = Some ''Tool execution timed out after 5 seconds'', metadata = []\<rparr>
   \<and> fst (execute new_executor echo_tool (JObj []) (Some (- 1))) =
     Inr \<lparr>success = False, result = JNull,
          error = Some ''Tool execution timed out after -1 seconds'', metadata = []\<rparr>
   \<and> fst (execute new_executor inner_timeout_tool (JObj []) None) =
     Inr \<lparr>success = False, result = JNull,
          error = Some ''Tool execution timed out after 30 seconds'', metadata = []\<rparr>
   \<and> rec_error_type (last (execution_history (snd (execute new_executor inner_timeout_tool (JObj []) None))))
       = Some ''timeout''
   \<and> fst (execute new_executor failing_tool (JObj []) None) =
     Inr \<lparr>success = False, result = JNull,
          error = Some ''Tool execution failed: boom'', metadata = []\<rparr>
   \<and> rec_error_type (last (execution_history (snd (execute new_executor failing_tool (JObj []) None))))
       = Some ''ValueError''
   \<and> fst (execute new_executor queue_tool (JObj []) None) =
     Inr \<lparr>success = False, result = JNull,
          error = Some ''Tool execution failed: queue empty'', metadata = []\<rparr>
   \<and> rec_error_type (last (execution_history (snd (execute new_executor queue_tool (JObj []) None))))
       = Some ''TimeoutError''
   \<and> execute new_executor interrupted_tool (JObj []) None =
       (Inl (Exn BaseExceptionClass ''KeyboardInterrupt'' ''''), new_executor)"
  using execute_returns_or_propagates [OF refl refl refl, where ex = new_executor and timeout = "None" and tool = echo_tool and arguments = "JObj []"]
        execute_returns_or_propagates [OF refl refl refl, where ex = new_executor and timeout = "Some 5" and tool = slow_tool and arguments = "JObj []"]
        execute_returns_or_propagates [OF refl refl refl, where ex = new_executor and timeout = "Some (- 1)" and tool = echo_tool and arguments = "JObj []"]
        execute_returns_or_propagates [OF refl refl refl, where ex = new_executor and timeout = "None" and tool = inner_timeout_tool and arguments = "JObj []"]
        execute_returns_or_propagates [OF refl refl refl, where ex = new_executor and timeout = "None" and tool = failing_tool and arguments = "JObj []"]
        execute_returns_or_propagates [OF refl refl refl, where ex = new_executor and timeout = "None" and tool = queue_tool and arguments = "JObj []"]
        execute_returns_or_propagates [OF refl refl refl, where ex = new_executor and timeout = "None" and tool = interrupted_tool and arguments = "JObj []"]
  by (simp add: slow_tool_def echo_tool_def failing_tool_def inner_timeout_tool_def queue_tool_def
      interrupted_tool_def new_executor_def effective_timeout_def str_int_def digit_char_def)

text \<open>
  The specification says that \<open>execute\<close> never lets an exception of the tool through. A
  tool interrupted by \<open>KeyboardInterrupt\<close> is not caught by \<open>except Exception\<close>: the
  exception leaves \<open>execute\<close> and there is no \<open>ToolResult\<close>.
\<close>

theorem execute_propagates_KeyboardInterrupt:
  "fst (execute new_executor interrupted_tool (JObj []) None) =
     Inl (Exn BaseExceptionClass ''KeyboardInterrupt'' '''')
   \<and> \<not> (\<exists>res. fst (execute new_executor interrupted_tool (JObj []) None) = Inr res)"
  by (simp add: execute_def await_tool_def effective_timeout_def interrupted_tool_def
      new_executor_def Let_def)

section \<open>The one-shot turn\<close>

lemma get_default_Some [simp]: "get_default (Some x) d = x"
  by (simp add: get_default_def)

lemma get_default_None [simp]: "get_default None d = d"
  by (simp add: get_default_def)

lemma get_tool_lookup: "fst (get_tool registry nm) = lookup_tool registry nm"
  by (simp add: get_tool_def lookup_tool_def split: option.splits)

lemma lookup_tool_get_tool:
  "lookup_tool (snd (get_tool registry nm)) nm' = lookup_tool registry nm'"
  by (auto simp: get_tool_def lookup_tool_def update_conv' split: option.splits)

lemma tool_reply_cong:
  "(\<And>nm. lookup_tool registry' nm = lookup_tool registry nm) \<Longrightarrow>
   tool_reply registry' timeout tc = tool_reply registry timeout tc"
  by (simp add: tool_reply_def)

text \<open>
  \<open>execute_by_name\<close> answers a request as the contract says; the executor keeps its
  default timeout and the registry keeps what every name stands for.
\<close>

lemma execute_by_name_reply:
  assumes "execute_by_name ex registry (req_name tc) (get_default (req_arguments tc) (JObj [])) None
             = (r, ex', registry')"
  shows "r = tool_reply registry (default_timeout ex) tc"
    and "default_timeout ex' = default_timeout ex"
    and "lookup_tool registry' nm = lookup_tool registry nm"
proof -
  let ?args = "get_default (req_arguments tc) (JObj [])"
  obtain found reg1 where g: "get_tool registry (req_name tc) = (found, reg1)"
    by (cases "get_tool registry (req_name tc)")
  have found: "found = lookup_tool registry (req_name tc)"
    using get_tool_lookup [of registry "req_name tc"] g by simp
  have reg1: "lookup_tool reg1 nm = lookup_tool registry nm"
    using lookup_tool_get_tool [of registry "req_name tc" nm] g by simp
  show "r = tool_reply registry (default_timeout ex) tc"
    and "default_timeout ex' = default_timeout ex"
    and "lookup_tool registry' nm = lookup_tool registry nm"
  proof (atomize (full), cases found)
    case None
    with assms g found reg1
    show "r = tool_reply registry (default_timeout ex) tc \<and>
          default_timeout ex' = default_timeout ex \<and>
          lookup_tool registry' nm = lookup_tool registry nm"
      by (auto simp: execute_by_name_def tool_reply_def failed_result_def)
  next
    case (Some tool)
    have l: "lookup_tool registry (req_name tc) = Some tool"
      using found Some by simp
    from assms g Some have x: "execute ex tool ?args None = (r, ex')" and r': "registry' = reg1"
      by (auto simp: execute_by_name_def split: prod.splits)
    have "r = tool_reply registry (default_timeout ex) tc \<and> default_timeout ex' = default_timeout ex"
    proof (cases "tool_execute tool ?args (default_timeout ex)")
      case (Returns res)
      with x l show ?thesis
        by (auto simp: execute_def await_tool_def effective_timeout_def tool_reply_def Let_def)
    next
      case TimesOut
      with x l show ?thesis
        by (auto simp: execute_def await_tool_def effective_timeout_def tool_reply_def
            failed_result_def Let_def)
    next
      case (Raises e)
      with x l show ?thesis
        by (cases "exn_class_of e")
           (auto simp: execute_def await_tool_def effective_timeout_def tool_reply_def
              failed_result_def Let_def)
    qed
    with reg1 r'
    show "r = tool_reply registry (default_timeout ex) tc \<and>
          default_timeout ex' = default_timeout ex \<and>
          lookup_tool registry' nm = lookup_tool registry nm"
      by simp
  qed
qed

lemma run_tool_effect:
  "\<exists>r e'. run_tool e nm arguments = (r, e')
     \<and> trace e' = trace e @ [ToolExecution nm arguments]
     \<and> conversation e' = conversation e"
  by (simp add: run_tool_def split: prod.splits)

lemma run_tool_reply:
  "\<exists>e'. run_tool e (req_name tc) (get_default (req_arguments tc) (JObj []))
           = (tool_reply (tool_registry e) (default_timeout (tool_executor e)) tc, e')
     \<and> trace e' = trace e @ [ToolExecution (req_name tc) (get_default (req_arguments tc) (JObj []))]
     \<and> conversation e' = conversation e
     \<and> default_timeout (tool_executor e') = default_timeout (tool_executor e)
     \<and> (\<forall>nm. lookup_tool (tool_registry e') nm = lookup_tool (tool_registry e) nm)"
proof -
  obtain r ex' registry' where
    x: "execute_by_name (tool_executor e) (tool_registry e) (req_name tc)
          (get_default (req_arguments tc) (JObj [])) None = (r, ex', registry')"
    by (metis prod_cases3)
  from execute_by_name_reply [OF x] x show ?thesis
    by (simp add: run_tool_def)
qed

text \<open>An exception that leaves the executor is one that \<open>except Exception\<close> does not catch.\<close>

lemma execute_Inl_not_Exception:
  "execute ex tool arguments timeout = (Inl e, ex') \<Longrightarrow> \<not> is_Exception e"
  by (auto simp: execute_def Let_def is_Exception_def split: sum.splits exn_class.splits)

lemma run_tool_Inl_not_Exception:
  "run_tool e nm arguments = (Inl ex, e') \<Longrightarrow> \<not> is_Exception ex"
  by (auto simp: run_tool_def execute_by_name_def
           split: prod.splits option.splits dest: execute_Inl_not_Exception)

lemma tool_reply_Inl:
  "tool_reply registry timeout tc = Inl ex \<Longrightarrow> \<not> is_Exception ex"
  by (auto simp: tool_reply_def is_Exception_def
           split: option.splits tool_outcome.splits exn_class.splits)

lemma add_message_no_trim:
  "int (length (messages c)) + 1 \<le> max_history c \<Longrightarrow> messages (add_message c m) = messages c @ [m]"
  by (simp add: add_message_def trim_history_def)

lemma foldl_add_message_max_history [simp]:
  "max_history (foldl add_message c ms) = max_history c"
  by (induction ms arbitrary: c) simp_all

lemma foldl_add_message_no_trim:
  "int (length (messages c)) + int (length ms) \<le> max_history c \<Longrightarrow>
   messages (foldl add_message c ms) = messages c @ ms"
proof (induction ms arbitrary: c)
  case Nil
  then show ?case by simp
next
  case (Cons m ms)
  have a: "messages (add_message c m) = messages c @ [m]"
    using Cons.prems by (simp add: add_message_no_trim)
  have "int (length (messages (add_message c m))) + int (length ms) \<le> max_history (add_message c m)"
    using Cons.prems a by simp
  from Cons.IH [OF this] a show ?case by simp
qed

lemma tool_round_Cons:
  "tool_round lib (tc # tcs) (res # results) =
     [ToolExecution (req_name tc) (get_default (req_arguments tc) (JObj [])),
      Appended (expected_tool_message lib tc res)] @ tool_round lib tcs results"
  by (simp add: tool_round_def)

lemma tool_round_messages_Cons:
  "tool_round_messages lib (tc # tcs) (res # results) =
     expected_tool_message lib tc res # tool_round_messages lib tcs results"
  by (simp add: tool_round_messages_def)

text \<open>The tool message the loop builds is the one the specification asks for.\<close>

lemma tool_message_expected:
  "tool_message lib (get_default (req_id tc) '''') res = expected_tool_message lib tc res"
  by (simp add: tool_message_def tool_message_text_def expected_tool_message_def str_opt_def
      get_default_def)

text \<open>
  The loop over requests that all get a result: every request is executed and answered, in
  order.
\<close>

lemma run_tool_calls_round:
  assumes "map (tool_reply (tool_registry e) (default_timeout (tool_executor e))) tcs = map Inr results"
  shows "\<exists>out e'. run_tool_calls lib e tcs acc = (Inr out, e')
     \<and> trace e' = trace e @ tool_round lib tcs results
     \<and> conversation e' = foldl add_message (conversation e) (tool_round_messages lib tcs results)"
  using assms
proof (induction tcs arbitrary: e acc results)
  case Nil
  then show ?case by (simp add: tool_round_def tool_round_messages_def)
next
  case (Cons tc tcs)
  let ?args = "get_default (req_arguments tc) (JObj [])"
  let ?id = "get_default (req_id tc) ''''"
  from Cons.prems obtain res rest where results: "results = res # rest"
    and reply: "tool_reply (tool_registry e) (default_timeout (tool_executor e)) tc = Inr res"
    and replies: "map (tool_reply (tool_registry e) (default_timeout (tool_executor e))) tcs = map Inr rest"
    by (cases results) auto
  obtain e1 where r: "run_tool e (req_name tc) ?args = (Inr res, e1)"
    and t1: "trace e1 = trace e @ [ToolExecution (req_name tc) ?args]"
    and c1: "conversation e1 = conversation e"
    and d1: "default_timeout (tool_executor e1) = default_timeout (tool_executor e)"
    and l1: "\<And>nm. lookup_tool (tool_registry e1) nm = lookup_tool (tool_registry e) nm"
    using run_tool_reply [of e tc] reply by auto
  let ?e2 = "append_message e1 (tool_message lib ?id res)"
  let ?acc = "acc @ [(?id, (if success res then result res else JStr (''Error: '' @ str_opt (error res))), success res)]"
  have same: "tool_reply (tool_registry e1) = tool_reply (tool_registry e)"
    by (intro ext tool_reply_cong l1)
  have "map (tool_reply (tool_registry ?e2) (default_timeout (tool_executor ?e2))) tcs = map Inr rest"
    using replies d1 same by (simp add: append_message_def)
  from Cons.IH [OF this, of ?acc] obtain out e' where
    run: "run_tool_calls lib ?e2 tcs ?acc = (Inr out, e')"
    and tr: "trace e' = trace ?e2 @ tool_round lib tcs rest"
    and cv: "conversation e' = foldl add_message (conversation ?e2) (tool_round_messages lib tcs rest)"
    by blast
  have step: "run_tool_calls lib e (tc # tcs) acc = (Inr out, e')"
    using r run by (simp add: Let_def)
  have tr': "trace e' = trace e @ tool_round lib (tc # tcs) (res # rest)"
    using tr t1 by (simp add: tool_round_Cons append_message_def tool_message_expected)
  have cv': "conversation e' =
               foldl add_message (conversation e) (tool_round_messages lib (tc # tcs) (res # rest))"
    using cv c1 by (simp add: tool_round_messages_Cons append_message_def tool_message_expected)
  show ?case
    unfolding results using step tr' cv'
    by (intro exI [of _ out] exI [of _ e']) simp
qed

text \<open>
  The loop when a request gets no result: the requests before it are executed and answered,
  it is executed, and its exception leaves the loop.
\<close>

lemma run_tool_calls_stops:
  assumes "map (tool_reply (tool_registry e) (default_timeout (tool_executor e))) pre = map Inr results"
    and "tool_reply (tool_registry e) (default_timeout (tool_executor e)) tc = Inl ex"
  shows "\<exists>e'. run_tool_calls lib e (pre @ tc # rest) acc = (Inl ex, e')
     \<and> trace e' = trace e @ tool_round lib pre results
                     @ [ToolExecution (req_name tc) (get_default (req_arguments tc) (JObj []))]
     \<and> conversation e' = foldl add_message (conversation e) (tool_round_messages lib pre results)"
  using assms
proof (induction pre arbitrary: e acc results)
  case Nil
  obtain e1 where
    "run_tool e (req_name tc) (get_default (req_arguments tc) (JObj [])) = (Inl ex, e1)"
    "trace e1 = trace e @ [ToolExecution (req_name tc) (get_default (req_arguments tc) (JObj []))]"
    "conversation e1 = conversation e"
    using run_tool_reply [of e tc] Nil.prems(2) by auto
  with Nil.prems(1) show ?case
    by (simp add: tool_round_def tool_round_messages_def Let_def)
next
  case (Cons tc0 pre)
  let ?args = "get_default (req_arguments tc0) (JObj [])"
  let ?id = "get_default (req_id tc0) ''''"
  from Cons.prems(1) obtain res rest' where results: "results = res # rest'"
    and reply: "tool_reply (tool_registry e) (default_timeout (tool_executor e)) tc0 = Inr res"
    and replies: "map (tool_reply (tool_registry e) (default_timeout (tool_executor e))) pre = map Inr rest'"
    by (cases results) auto
  obtain e1 where r: "run_tool e (req_name tc0) ?args = (Inr res, e1)"
    and t1: "trace e1 = trace e @ [ToolExecution (req_name tc0) ?args]"
    and c1: "conversation e1 = conversation e"
    and d1: "default_timeout (tool_executor e1) = default_timeout (tool_executor e)"
    and l1: "\<And>nm. lookup_tool (tool_registry e1) nm = lookup_tool (tool_registry e) nm"
    using run_tool_reply [of e tc0] reply by auto
  let ?e2 = "append_message e1 (tool_message lib ?id res)"
  let ?acc = "acc @ [(?id, (if success res then result res else JStr (''Error: '' @ str_opt (error res))), success res)]"
  have same: "tool_reply (tool_registry e1) = tool_reply (tool_registry e)"
    by (intro ext tool_reply_cong l1)
  have a: "map (tool_reply (tool_registry ?e2) (default_timeout (tool_executor ?e2))) pre = map Inr rest'"
    using replies d1 same by (simp add: append_message_def)
  have b: "tool_reply (tool_registry ?e2) (default_timeout (tool_executor ?e2)) tc = Inl ex"
    using Cons.prems(2) d1 same by (simp add: append_message_def)
  from Cons.IH [OF a b, of ?acc] obtain e' where
    run: "run_tool_calls lib ?e2 (pre @ tc # rest) ?acc = (Inl ex, e')"
    and tr: "trace e' = trace ?e2 @ tool_round lib pre rest'
                          @ [ToolExecution (req_name tc) (get_default (req_arguments tc) (JObj []))]"
    and cv: "conversation e' = foldl add_message (conversation ?e2) (tool_round_messages lib pre rest')"
    by blast
  have step: "run_tool_calls lib e ((tc0 # pre) @ tc # rest) acc = (Inl ex, e')"
    using r run by (simp add: Let_def)
  have tr': "trace e' = trace e @ tool_round lib (tc0 # pre) (res # rest')
                          @ [ToolExecution (req_name tc) (get_default (req_arguments tc) (JObj []))]"
    using tr t1 by (simp add: tool_round_Cons append_message_def tool_message_expected)
  have cv': "conversation e' =
               foldl add_message (conversation e) (tool_round_messages lib (tc0 # pre) (res # rest'))"
    using cv c1 by (simp add: tool_round_messages_Cons append_message_def tool_message_expected)
  show ?case
    unfolding results using step tr' cv'
    by (intro exI [of _ e']) simp
qed

lemma pop_and_raise_trace: "trace (snd (pop_and_raise e ex)) = trace e"
  by (simp add: pop_and_raise_def)

lemma pop_and_raise_not_Exception: "\<not> is_Exception ex \<Longrightarrow> pop_and_raise e ex = (ex, e)"
  by (simp add: pop_and_raise_def)

text \<open>
  C4, as the code has it. Take a \<open>send_message\<close> turn whose provider response carries the
  tool-call requests \<open>tcs\<close> (at least one), and let \<open>reply\<close> be what the executor's
  contract gives each request under the registry and the default timeout of the engine.

  When every request has a result (a tool that times out, a tool that raises an exception of
  the \<open>Exception\<close> hierarchy and a name that is not registered have a failed result), the
  turn does, after appending the user message and calling the provider with tools, exactly
  this: for each request in the provider's order one execution and then one appended
  message of role \<open>tool\<close> whose \<open>tool_call_id\<close> is the request's id and whose content is
  the result, or \<open>Error: ...\<close> for a failed result; then one \<open>create_message\<close> call, sent
  the history after all these appends (when nothing is trimmed: the history before, then
  all the tool messages); and, when that call returns, the assistant message.

  When a tool raises an exception outside the \<open>Exception\<close> hierarchy, the requests before
  it are executed and answered, that tool is executed, and the exception leaves
  \<open>send_message\<close>: the remaining requests are not executed, no follow-up call is made, and
  the user message and the tool messages appended so far stay in the conversation.
\<close>

theorem send_message_tool_round:
  assumes tools_on: "use_tools prov e tools_arg enable_tools_arg"
    and um: "um = user_message lib (get_default thinking_mode (enable_thinking (config e))) txt"
    and c1: "c1 = conversation (append_message e um)"
    and msgs0: "msgs0 = messages c1"
    and tds: "tds = get_default (available_tools prov e tools_arg enable_tools_arg) []"
    and resp: "p_create_message_with_tools prov msgs0 tds = Inr response_data"
    and tcs: "rd_tool_calls response_data = Some tcs" "tcs \<noteq> []"
    and reply: "reply = tool_reply (tool_registry e) (default_timeout (tool_executor e))"
    and out: "outcome = send_message lib prov e txt thinking_mode tools_arg enable_tools_arg"
  shows "(\<forall>results. map reply tcs = map Inr results \<longrightarrow>
            trace (snd outcome) =
              trace e @ [Appended um, ProviderCreateMessageWithTools msgs0 tds]
                @ tool_round lib tcs results
                @ [ProviderCreateMessage
                     (messages (foldl add_message c1 (tool_round_messages lib tcs results)))]
                @ (case fst outcome of Inl ex \<Rightarrow> [] | Inr r \<Rightarrow> [Appended (assistant_message r)])
            \<and> (int (length msgs0) + int (length tcs) \<le> max_history c1 \<longrightarrow>
                 messages (foldl add_message c1 (tool_round_messages lib tcs results))
                   = msgs0 @ tool_round_messages lib tcs results))
       \<and> (\<forall>pre tc rest results ex.
            tcs = pre @ tc # rest \<and> map reply pre = map Inr results \<and> reply tc = Inl ex \<longrightarrow>
            fst outcome = Inl ex
            \<and> trace (snd outcome) =
                trace e @ [Appended um, ProviderCreateMessageWithTools msgs0 tds]
                  @ tool_round lib pre results
                  @ [ToolExecution (req_name tc) (get_default (req_arguments tc) (JObj []))]
            \<and> conversation (snd outcome) =
                foldl add_message c1 (tool_round_messages lib pre results))"
proof -
  let ?thinking = "get_default thinking_mode (enable_thinking (config e))"
  let ?e1 = "append_message e um"
  let ?eL = "log_event ?e1 (ProviderCreateMessageWithTools msgs0 tds)"
  have regL: "tool_reply (tool_registry ?eL) (default_timeout (tool_executor ?eL)) = reply"
    using reply by (simp add: log_event_def append_message_def)
  have cL: "conversation ?eL = c1"
    using c1 by (simp add: log_event_def)
  have trL: "trace ?eL = trace e @ [Appended um, ProviderCreateMessageWithTools msgs0 tds]"
    by (simp add: log_event_def append_message_def)
  have st: "send_try lib prov ?e1 ?thinking True tds =
      (case handle_tool_calls lib prov ?eL response_data of
         (Inl ex, e2) \<Rightarrow> (Inl ex, e2)
       | (Inr response_data', e2) \<Rightarrow>
           (let chat_response = process_response lib response_data' ?thinking
            in (Inr chat_response, append_message e2 (assistant_message chat_response))))"
    using resp tcs msgs0 c1
    by (simp add: send_try_def get_messages_for_provider_def Let_def)
  have sm: "outcome =
      (case send_try lib prov ?e1 ?thinking True tds of
         (Inr chat_response, e2) \<Rightarrow> (Inr chat_response, e2)
       | (Inl ex, e2) \<Rightarrow> (case pop_and_raise e2 ex of (ex', e3) \<Rightarrow> (Inl ex', e3)))"
    using tools_on um tds out by (simp add: send_message_def Let_def)
  have completed:
    "trace (snd outcome) =
       trace e @ [Appended um, ProviderCreateMessageWithTools msgs0 tds]
         @ tool_round lib tcs results
         @ [ProviderCreateMessage
              (messages (foldl add_message c1 (tool_round_messages lib tcs results)))]
         @ (case fst outcome of Inl ex \<Rightarrow> [] | Inr r \<Rightarrow> [Appended (assistant_message r)])
     \<and> (int (length msgs0) + int (length tcs) \<le> max_history c1 \<longrightarrow>
          messages (foldl add_message c1 (tool_round_messages lib tcs results))
            = msgs0 @ tool_round_messages lib tcs results)"
    if replies: "map reply tcs = map Inr results" for results
  proof -
    have len: "length results = length tcs"
      using replies by (metis length_map)
    obtain outs e' where
      run: "run_tool_calls lib ?eL tcs [] = (Inr outs, e')"
      and tr: "trace e' = trace ?eL @ tool_round lib tcs results"
      and cv: "conversation e' = foldl add_message c1 (tool_round_messages lib tcs results)"
      using run_tool_calls_round [of ?eL tcs results lib "[]"] replies regL cL by auto
    let ?msgs1 = "messages (foldl add_message c1 (tool_round_messages lib tcs results))"
    let ?e2 = "log_event e' (ProviderCreateMessage ?msgs1)"
    have htc: "handle_tool_calls lib prov ?eL response_data =
        (case p_create_message prov ?msgs1 of
           Inl ex \<Rightarrow> (Inl ex, ?e2)
         | Inr final_response \<Rightarrow>
             (Inr (empty_data\<lparr>rd_content := Some final_response, rd_tool_calls := Some tcs,
                              rd_tool_results := Some outs\<rparr>), ?e2))"
      using tcs run cv
      by (simp add: handle_tool_calls_def get_messages_for_provider_def Let_def split: sum.splits)
    have fit: "?msgs1 = msgs0 @ tool_round_messages lib tcs results"
      if "int (length msgs0) + int (length tcs) \<le> max_history c1"
      using that msgs0 len
      by (simp add: foldl_add_message_no_trim tool_round_messages_def)
    have "trace (snd outcome) =
           trace e @ [Appended um, ProviderCreateMessageWithTools msgs0 tds]
             @ tool_round lib tcs results
             @ [ProviderCreateMessage ?msgs1]
             @ (case fst outcome of Inl ex \<Rightarrow> [] | Inr r \<Rightarrow> [Appended (assistant_message r)])"
    proof (cases "p_create_message prov ?msgs1")
      case (Inl ex)
      have "trace (snd outcome) = trace ?e2 \<and> (\<exists>ex'. fst outcome = Inl ex')"
        using sm st htc Inl pop_and_raise_trace [of ?e2 ex]
        by (auto simp: split: prod.splits)
      then show ?thesis
        using tr trL by (auto simp: log_event_def)
    next
      case (Inr final_response)
      let ?rd = "empty_data\<lparr>rd_content := Some final_response, rd_tool_calls := Some tcs,
                              rd_tool_results := Some outs\<rparr>"
      let ?cr = "process_response lib ?rd ?thinking"
      have "outcome = (Inr ?cr, append_message ?e2 (assistant_message ?cr))"
        using sm st htc Inr by (simp add: Let_def)
      then show ?thesis
        using tr trL by (simp add: log_event_def append_message_def)
    qed
    with fit show ?thesis by blast
  qed
  have stopped:
    "fst outcome = Inl ex
     \<and> trace (snd outcome) =
         trace e @ [Appended um, ProviderCreateMessageWithTools msgs0 tds]
           @ tool_round lib pre results
           @ [ToolExecution (req_name tc) (get_default (req_arguments tc) (JObj []))]
     \<and> conversation (snd outcome) = foldl add_message c1 (tool_round_messages lib pre results)"
    if split: "tcs = pre @ tc # rest" and replies: "map reply pre = map Inr results"
      and raised: "reply tc = Inl ex"
    for pre tc rest results ex
  proof -
    obtain e' where
      run: "run_tool_calls lib ?eL (pre @ tc # rest) [] = (Inl ex, e')"
      and tr: "trace e' = trace ?eL @ tool_round lib pre results
                            @ [ToolExecution (req_name tc) (get_default (req_arguments tc) (JObj []))]"
      and cv: "conversation e' = foldl add_message c1 (tool_round_messages lib pre results)"
      using run_tool_calls_stops [of ?eL pre results tc ex lib rest "[]"] replies raised regL cL
      by auto
    have nex: "\<not> is_Exception ex"
      using raised reply tool_reply_Inl by blast
    have htc: "handle_tool_calls lib prov ?eL response_data = (Inl ex, e')"
      using tcs run split by (simp add: handle_tool_calls_def Let_def)
    have "outcome = (Inl ex, e')"
      using sm st htc pop_and_raise_not_Exception [OF nex, of e'] by simp
    then show ?thesis
      using tr trL cv by simp
  qed
  from completed stopped show ?thesis by blast
qed

lemmas turn_eval =
  send_message_def send_try_def handle_tool_calls_def run_tool_def
  execute_by_name_def get_tool_def execute_def await_tool_def record_execution_def
  append_message_def add_message_def trim_history_def log_event_def pop_and_raise_def
  is_Exception_def
  use_tools_def available_tools_def should_enable_tools_def supports_tool_calling_def
  get_tool_schemas_def list_tools_def schema_dict_def user_message_def assistant_message_def
  process_response_def request_to_ToolCall_def ToolCall_to_dict_def tool_message_def
  tool_message_text_def str_opt_def failed_result_def effective_timeout_def
  get_messages_for_provider_def empty_data_def new_conversation_def new_executor_def
  test_lib_def test_engine_def echo_tool_def failing_tool_def interrupted_tool_def request_def
  py_slice_from_def is_system_def mk_msg_def

lemmas round_eval =
  tool_reply_def lookup_tool_def tool_round_def tool_round_messages_def
  expected_tool_message_def

theorem send_message_tool_round_witness:
  "use_tools provider_two_calls test_engine None None
   \<and> map (tool_reply (tool_registry test_engine) (default_timeout (tool_executor test_engine)))
         [request ''a'' ''failing'', request ''b'' ''echo'']
       = map Inr [\<lparr>success = False, result = JNull,
                   error = Some ''Tool execution failed: boom'', metadata = []\<rparr>,
                  \<lparr>success = True, result = JStr ''ok'', error = None, metadata = []\<rparr>]
   \<and> trace (snd (send_message test_lib provider_two_calls test_engine ''hi'' None None None)) =
       [Appended (mk_msg USER ''hi''),
        ProviderCreateMessageWithTools [mk_msg USER ''hi'']
          (get_tool_schemas (tool_registry test_engine)),
        ToolExecution (Some ''failing'') (JObj []),
        Appended \<lparr>role = TOOL, content = ''Error: Tool execution failed: boom'',
                  tool_calls = None, tool_call_id = Some ''a''\<rparr>,
        ToolExecution (Some ''echo'') (JObj []),
        Appended \<lparr>role = TOOL, content = ''ok'', tool_calls = None, tool_call_id = Some ''b''\<rparr>,
        ProviderCreateMessage
          [mk_msg USER ''hi'',
           \<lparr>role = TOOL, content = ''Error: Tool execution failed: boom'',
            tool_calls = None, tool_call_id = Some ''a''\<rparr>,
           \<lparr>role = TOOL, content = ''ok'', tool_calls = None, tool_call_id = Some ''b''\<rparr>],
        Appended \<lparr>role = ASSISTANT, content = ''done'',
                  tool_calls = Some [ToolCall_to_dict \<lparr>tc_id = ''a'', tc_name = ''failing'', tc_arguments = JObj []\<rparr>,
                                     ToolCall_to_dict \<lparr>tc_id = ''b'', tc_name = ''echo'', tc_arguments = JObj []\<rparr>],
                  tool_call_id = None\<rparr>]
   \<and> use_tools provider_interrupted_call test_engine None None
   \<and> tool_reply (tool_registry test_engine) (default_timeout (tool_executor test_engine))
         (request ''a'' ''interrupted'')
       = Inl (Exn BaseExceptionClass ''KeyboardInterrupt'' '''')
   \<and> fst (send_message test_lib provider_interrupted_call test_engine ''hi'' None None None)
       = Inl (Exn BaseExceptionClass ''KeyboardInterrupt'' '''')
   \<and> trace (snd (send_message test_lib provider_interrupted_call test_engine ''hi'' None None None)) =
       [Appended (mk_msg USER ''hi''),
        ProviderCreateMessageWithTools [mk_msg USER ''hi'']
          (get_tool_schemas (tool_registry test_engine)),
        ToolExecution (Some ''interrupted'') (JObj [])]"
proof -
  let ?tcs = "[request ''a'' ''failing'', request ''b'' ''echo'']"
  let ?tcs' = "[request ''a'' ''interrupted'', request ''b'' ''echo'']"
  let ?results = "[\<lparr>success = False, result = JNull,
                    error = Some ''Tool execution failed: boom'', metadata = []\<rparr>,
                   \<lparr>success = True, result = JStr ''ok'', error = None, metadata = []\<rparr>]"
  let ?reply = "tool_reply (tool_registry test_engine) (default_timeout (tool_executor test_engine))"
  let ?c1 = "conversation (append_message test_engine (mk_msg USER ''hi''))"
  let ?tds = "get_tool_schemas (tool_registry test_engine)"
  let ?out = "send_message test_lib provider_two_calls test_engine ''hi'' None None None"
  let ?out' = "send_message test_lib provider_interrupted_call test_engine ''hi'' None None None"
  have on: "use_tools provider_two_calls test_engine None None"
    by (simp add: turn_eval provider_two_calls_def)
  have on': "use_tools provider_interrupted_call test_engine None None"
    by (simp add: turn_eval provider_interrupted_call_def)
  have um: "mk_msg USER ''hi''
              = user_message test_lib (get_default None (enable_thinking (config test_engine))) ''hi''"
    by (simp add: turn_eval)
  have m0: "[mk_msg USER ''hi''] = messages ?c1"
    by (simp add: turn_eval)
  have tds: "?tds = get_default (available_tools provider_two_calls test_engine None None) []"
    by (simp add: turn_eval provider_two_calls_def)
  have tds': "?tds = get_default (available_tools provider_interrupted_call test_engine None None) []"
    by (simp add: turn_eval provider_interrupted_call_def)
  have resp: "p_create_message_with_tools provider_two_calls [mk_msg USER ''hi''] ?tds
                = Inr (empty_data\<lparr>rd_tool_calls := Some ?tcs\<rparr>)"
    by (simp add: provider_two_calls_def)
  have resp': "p_create_message_with_tools provider_interrupted_call [mk_msg USER ''hi''] ?tds
                = Inr (empty_data\<lparr>rd_tool_calls := Some ?tcs'\<rparr>)"
    by (simp add: provider_interrupted_call_def)
  have tcs: "rd_tool_calls (empty_data\<lparr>rd_tool_calls := Some ?tcs\<rparr>) = Some ?tcs"
    and tcs': "rd_tool_calls (empty_data\<lparr>rd_tool_calls := Some ?tcs'\<rparr>) = Some ?tcs'"
    by (simp_all add: empty_data_def)
  have replies: "map ?reply ?tcs = map Inr ?results"
    by (simp add: round_eval turn_eval)
  have raised: "?reply (request ''a'' ''interrupted'') = Inl (Exn BaseExceptionClass ''KeyboardInterrupt'' '''')"
    by (simp add: round_eval turn_eval)
  have res: "fst ?out =
      Inr \<lparr>cr_content = ''done'',
           cr_tool_calls = Some [\<lparr>tc_id = ''a'', tc_name = ''failing'', tc_arguments = JObj []\<rparr>,
                                 \<lparr>tc_id = ''b'', tc_name = ''echo'', tc_arguments = JObj []\<rparr>],
           cr_thinking = None, cr_model = None, cr_usage = None\<rparr>"
    by (simp add: turn_eval provider_two_calls_def Let_def)
  have fit: "int (length [mk_msg USER ''hi'']) + int (length ?tcs) \<le> max_history ?c1"
    by (simp add: turn_eval)
  have ne: "?tcs \<noteq> []" and ne': "?tcs' \<noteq> []"
    by simp_all
  note round = send_message_tool_round [OF on um refl m0 tds resp tcs ne refl refl]
  note round' = send_message_tool_round [OF on' um refl m0 tds' resp' tcs' ne' refl refl]
  from round replies have
    "trace (snd ?out) =
       trace test_engine @ [Appended (mk_msg USER ''hi''),
          ProviderCreateMessageWithTools [mk_msg USER ''hi''] ?tds]
         @ tool_round test_lib ?tcs ?results
         @ [ProviderCreateMessage
              (messages (foldl add_message ?c1 (tool_round_messages test_lib ?tcs ?results)))]
         @ (case fst ?out of Inl ex \<Rightarrow> [] | Inr r \<Rightarrow> [Appended (assistant_message r)])"
    and "int (length [mk_msg USER ''hi'']) + int (length ?tcs) \<le> max_history ?c1 \<longrightarrow>
         messages (foldl add_message ?c1 (tool_round_messages test_lib ?tcs ?results))
           = [mk_msg USER ''hi''] @ tool_round_messages test_lib ?tcs ?results"
    by blast+
  with fit res have completed:
    "trace (snd ?out) =
       [Appended (mk_msg USER ''hi''),
        ProviderCreateMessageWithTools [mk_msg USER ''hi''] ?tds,
        ToolExecution (Some ''failing'') (JObj []),
        Appended \<lparr>role = TOOL, content = ''Error: Tool execution failed: boom'',
                  tool_calls = None, tool_call_id = Some ''a''\<rparr>,
        ToolExecution (Some ''echo'') (JObj []),
        Appended \<lparr>role = TOOL, content = ''ok'', tool_calls = None, tool_call_id = Some ''b''\<rparr>,
        ProviderCreateMessage
          [mk_msg USER ''hi'',
           \<lparr>role = TOOL, content = ''Error: Tool execution failed: boom'',
            tool_calls = None, tool_call_id = Some ''a''\<rparr>,
           \<lparr>role = TOOL, content = ''ok'', tool_calls = None, tool_call_id = Some ''b''\<rparr>],
        Appended \<lparr>role = ASSISTANT, content = ''done'',
                  tool_calls = Some [ToolCall_to_dict \<lparr>tc_id = ''a'', tc_name = ''failing'', tc_arguments = JObj []\<rparr>,
                                     ToolCall_to_dict \<lparr>tc_id = ''b'', tc_name = ''echo'', tc_arguments = JObj []\<rparr>],
                  tool_call_id = None\<rparr>]"
    by (simp add: round_eval assistant_message_def test_engine_def test_lib_def request_def)
  have "?tcs' = [] @ request ''a'' ''interrupted'' # [request ''b'' ''echo'']"
    and "map ?reply [] = map Inr []"
    by simp_all
  with round' raised have
    "fst ?out' = Inl (Exn BaseExceptionClass ''KeyboardInterrupt'' '''')
     \<and> trace (snd ?out') =
         trace test_engine @ [Appended (mk_msg USER ''hi''),
            ProviderCreateMessageWithTools [mk_msg USER ''hi''] ?tds]
           @ tool_round test_lib [] []
           @ [ToolExecution (req_name (request ''a'' ''interrupted''))
                (get_default (req_arguments (request ''a'' ''interrupted'')) (JObj []))]"
    by blast
  then have stopped:
    "fst ?out' = Inl (Exn BaseExceptionClass ''KeyboardInterrupt'' '''')
     \<and> trace (snd ?out') =
         [Appended (mk_msg USER ''hi''),
          ProviderCreateMessageWithTools [mk_msg USER ''hi''] ?tds,
          ToolExecution (Some ''interrupted'') (JObj [])]"
    by (simp add: round_eval test_engine_def request_def)
  from on replies completed on' raised stopped show ?thesis
    by blast
qed

text \<open>
  The specification says that no failing tool stops the execution of the remaining calls.
  Here the provider asks for two tool calls; the first tool raises \<open>KeyboardInterrupt\<close>,
  which \<open>except Exception\<close> catches neither in the executor nor in \<open>send_message\<close>.
  The second call is never executed, no tool message is appended, no follow-up call is
  made, and the user message stays in the conversation.
\<close>

theorem send_message_interrupted_tool_stops_round:
  "p_create_message_with_tools provider_interrupted_call [mk_msg USER ''hi'']
       (get_tool_schemas (tool_registry test_engine))
     = Inr (empty_data\<lparr>rd_tool_calls := Some [request ''a'' ''interrupted'', request ''b'' ''echo'']\<rparr>)
   \<and> (case send_message test_lib provider_interrupted_call test_engine ''hi'' None None None of
        (r, e') \<Rightarrow>
          r = Inl (Exn BaseExceptionClass ''KeyboardInterrupt'' '''')
          \<and> trace e' =
              [Appended (mk_msg USER ''hi''),
               ProviderCreateMessageWithTools [mk_msg USER ''hi'']
                 (get_tool_schemas (tool_registry test_engine)),
               ToolExecution (Some ''interrupted'') (JObj [])]
          \<and> messages (conversation e') = [mk_msg USER ''hi''])"
  by (simp add: turn_eval provider_interrupted_call_def Let_def)

text \<open>
  C1. The specification: when \<open>send_message\<close> raises, the message count is what it was before the
  call. The code: the handler pops one message, whatever it is. Here the provider asks for
  one tool call and its follow-up \<open>create_message\<close> raises; the pop removes the tool
  message, and the user message stays behind: the count goes from 0 to 1.
\<close>

theorem send_message_failure_leaves_user_message:
  "(case send_message test_lib provider_followup_fails test_engine ''hi'' None None None of
      (r, e') \<Rightarrow>
        r = Inl (Exn ExceptionClass ''ProviderError'' ''unavailable'')
        \<and> get_message_count (conversation test_engine) = 0
        \<and> messages (conversation e') = [mk_msg USER ''hi'']
        \<and> get_message_count (conversation e') = 1)"
  by (simp add: turn_eval provider_followup_fails_def Let_def get_message_count_def)
section \<open>The streamed turn\<close>

lemma yield_chunk_current [simp]: "current_tool_call (yield_chunk st c) = current_tool_call st"
  by (simp add: yield_chunk_def)

lemma yield_error_current [simp]:
  "current_tool_call (snd (yield_error st tool_call ex)) = current_tool_call st"
  by (simp add: yield_error_def)

lemma execute_accumulated_current [simp]:
  "current_tool_call (snd (execute_accumulated lib st item)) = current_tool_call st"
  by (cases item) (simp add: execute_accumulated_def Let_def split: sum.splits prod.splits)

lemma execute_all_current [simp]:
  "current_tool_call (snd (execute_all lib st items)) = current_tool_call st"
proof (induction items arbitrary: st)
  case Nil
  then show ?case by simp
next
  case (Cons item items)
  obtain x st' where step: "execute_accumulated lib st item = (x, st')"
    by (cases "execute_accumulated lib st item")
  have "current_tool_call st' = current_tool_call st"
    using execute_accumulated_current [of lib st item] step by simp
  with Cons.IH [of st'] step show ?case by (cases x) simp_all
qed

lemma stream_chunk_no_start_current:
  assumes "rd_tool_call_start chunk_data = None"
  shows "current_tool_call (snd (stream_chunk lib thinking st chunk_data)) = current_tool_call st"
  using assms
  by (auto simp: stream_chunk_def Let_def split: option.splits prod.splits)

lemma delta_event_ignored:
  "current_tool_call st = None \<Longrightarrow> stream_chunk lib thinking st (delta_event pj) = (None, st)"
  by (simp add: stream_chunk_def delta_event_def empty_data_def process_response_def Let_def)

lemma consume_feed_skips_early_delta:
  assumes "list_all (\<lambda>c. rd_tool_call_start c = None) pre" and "current_tool_call st = None"
  shows "consume_feed lib thinking st (pre @ delta_event pj # post) =
         consume_feed lib thinking st (pre @ post)"
  using assms
proof (induction pre arbitrary: st)
  case Nil
  then show ?case by (simp add: delta_event_ignored)
next
  case (Cons c pre)
  obtain x st' where step: "stream_chunk lib thinking st c = (x, st')"
    by (cases "stream_chunk lib thinking st c")
  have "current_tool_call st' = None"
    using stream_chunk_no_start_current [of c lib thinking st] Cons.prems step by simp
  with Cons step show ?case by (cases x) simp_all
qed

lemma supports_tool_calling_feed_update [simp]:
  "supports_tool_calling (prov\<lparr>p_stream_message_with_tools := f\<rparr>) = supports_tool_calling prov"
  by (simp add: supports_tool_calling_def)

lemma should_enable_tools_feed_update [simp]:
  "should_enable_tools (prov\<lparr>p_stream_message_with_tools := f\<rparr>) e tools_arg enable_tools_arg =
   should_enable_tools prov e tools_arg enable_tools_arg"
  by (simp add: should_enable_tools_def split: option.splits)

lemma available_tools_feed_update [simp]:
  "available_tools (prov\<lparr>p_stream_message_with_tools := f\<rparr>) e tools_arg enable_tools_arg =
   available_tools prov e tools_arg enable_tools_arg"
  by (simp add: available_tools_def)

lemma use_tools_feed_update [simp]:
  "use_tools (prov\<lparr>p_stream_message_with_tools := f\<rparr>) e tools_arg enable_tools_arg =
   use_tools prov e tools_arg enable_tools_arg"
  by (simp add: use_tools_def)

text \<open>
  C10. A \<open>tool_call_delta\<close> item that arrives while no tool call has been started changes
  nothing and raises nothing; a feed in which such an item comes before any
  \<open>tool_call_start\<close> gives the same chunks, the same outcome and the same engine as the
  feed without it.
\<close>

theorem early_tool_call_delta_ignored:
  "(current_tool_call st = None \<longrightarrow> stream_chunk lib thinking st (delta_event pj) = (None, st))
   \<and> (list_all (\<lambda>c. rd_tool_call_start c = None) pre \<longrightarrow>
        stream_message lib
          (prov\<lparr>p_stream_message_with_tools := (\<lambda>msgs tool_dicts. (pre @ delta_event pj # post, feed_ex))\<rparr>)
          e txt thinking_mode tools_arg enable_tools_arg =
        stream_message lib
          (prov\<lparr>p_stream_message_with_tools := (\<lambda>msgs tool_dicts. (pre @ post, feed_ex))\<rparr>)
          e txt thinking_mode tools_arg enable_tools_arg)"
proof (intro conjI impI)
  assume "current_tool_call st = None"
  then show "stream_chunk lib thinking st (delta_event pj) = (None, st)"
    by (rule delta_event_ignored)
next
  assume pre: "list_all (\<lambda>c. rd_tool_call_start c = None) pre"
  have skip: "consume_feed lib th s (pre @ delta_event pj # post) = consume_feed lib th s (pre @ post)"
    if "current_tool_call s = None" for th s
    using consume_feed_skips_early_delta [OF pre that] .
  show "stream_message lib
          (prov\<lparr>p_stream_message_with_tools := (\<lambda>msgs tool_dicts. (pre @ delta_event pj # post, feed_ex))\<rparr>)
          e txt thinking_mode tools_arg enable_tools_arg =
        stream_message lib
          (prov\<lparr>p_stream_message_with_tools := (\<lambda>msgs tool_dicts. (pre @ post, feed_ex))\<rparr>)
          e txt thinking_mode tools_arg enable_tools_arg"
    by (simp add: stream_message_def Let_def skip)
qed

lemma consume_feed_deltas:
  assumes "current_tool_call st = Some i" and "accumulated_tool_calls st = [(i, tc)]"
  shows "consume_feed lib thinking st (map (\<lambda>f. delta_event (Some f)) frags @ rest) =
         consume_feed lib thinking
           (st\<lparr>accumulated_tool_calls :=
                 [(i, tc\<lparr>ac_arguments_json := ac_arguments_json tc @ concat frags\<rparr>)]\<rparr>) rest"
  using assms
proof (induction frags arbitrary: st tc)
  case Nil
  have "st\<lparr>accumulated_tool_calls := [(i, tc)]\<rparr> = st"
    using Nil.prems(2) [symmetric] by simp
  then show ?case by simp
next
  case (Cons f frags)
  let ?tc = "tc\<lparr>ac_arguments_json := ac_arguments_json tc @ f\<rparr>"
  let ?st = "st\<lparr>accumulated_tool_calls := [(i, ?tc)]\<rparr>"
  have step: "stream_chunk lib thinking st (delta_event (Some f)) = (None, ?st)"
    using Cons.prems by (simp add: stream_chunk_def delta_event_def empty_data_def)
  have "consume_feed lib thinking ?st (map (\<lambda>f. delta_event (Some f)) frags @ rest) =
        consume_feed lib thinking
          (?st\<lparr>accumulated_tool_calls :=
                 [(i, ?tc\<lparr>ac_arguments_json := ac_arguments_json ?tc @ concat frags\<rparr>)]\<rparr>) rest"
    using Cons.prems by (intro Cons.IH) simp_all
  with step show ?case by simp
qed

lemma stream_chunk_start:
  "stream_chunk lib thinking st (start_event i n) =
     (None, st\<lparr>current_tool_call := Some i,
               accumulated_tool_calls :=
                 AList.update i \<lparr>ac_id = i, ac_name = n, ac_arguments = JStr '''',
                                 ac_arguments_json = ''''\<rparr> (accumulated_tool_calls st)\<rparr>)"
  by (simp add: stream_chunk_def start_event_def empty_data_def)

lemma stream_chunk_stop:
  "stream_chunk lib thinking st stop_event = execute_all lib st (accumulated_tool_calls st)"
  by (simp add: stream_chunk_def stop_event_def empty_data_def)

text \<open>
  C7. A feed \<open>tool_call_start(i, n)\<close>, argument fragments, \<open>stop\<close> makes the engine
  execute the tool \<open>n\<close> exactly once, with the JSON value parsed from the concatenated
  fragments, or with the empty object when the concatenation is the empty string: the
  turn's actions are the user message, the provider call, that one execution, and a tail
  with no execution in it. When the execution gives a result, the tail is its tool message
  and the final assistant message, and the one chunk produced is the text of the result.
  When the execution raises (an exception outside the \<open>Exception\<close> hierarchy, which no
  handler of the turn catches), the tail is empty and the exception leaves the turn.
\<close>

theorem stream_message_executes_started_call:
  assumes tools_on: "use_tools prov e tools_arg enable_tools_arg"
    and um: "um = user_message lib (get_default thinking_mode (enable_thinking (config e))) txt"
    and msgs0: "msgs0 = messages (conversation (append_message e um))"
    and tds: "tds = get_default (available_tools prov e tools_arg enable_tools_arg) []"
    and feed: "p_stream_message_with_tools prov msgs0 tds =
                 (start_event i n # map (\<lambda>f. delta_event (Some f)) frags @ [stop_event], None)"
    and parse: "if concat frags = '''' then arguments = JObj []
                else json_loads lib (concat frags) = Inr arguments"
    and out: "outcome = stream_message lib prov e txt thinking_mode tools_arg enable_tools_arg"
  shows "\<exists>tail.
           trace (snd (snd outcome)) =
             trace e @ [Appended um, ProviderStreamMessageWithTools msgs0 tds,
                        ToolExecution (Some n) arguments] @ tail
           \<and> (\<forall>nm a. ToolExecution nm a \<notin> set tail)
           \<and> (case fst (run_tool (log_event (append_message e um)
                                    (ProviderStreamMessageWithTools msgs0 tds))
                          (Some n) arguments) of
                Inr res \<Rightarrow>
                  tail = [Appended (tool_message lib i res),
                          Appended \<lparr>role = ASSISTANT, content = tool_message_text lib res,
                                    tool_calls = Some [JObj [(''id'', JStr i), (''name'', JStr n),
                                                             (''arguments'', arguments)]],
                                    tool_call_id = None\<rparr>]
                  \<and> fst (snd outcome) = None
                  \<and> fst outcome = [content_chunk (tool_message_text lib res)]
              | Inl ex \<Rightarrow>
                  tail = [] \<and> fst (snd outcome) = Some ex \<and> fst outcome = [])"
proof -
  let ?th = "get_default thinking_mode (enable_thinking (config e))"
  let ?eL = "log_event (append_message e um) (ProviderStreamMessageWithTools msgs0 tds)"
  let ?st0 = "\<lparr>st_engine = ?eL, accumulated_content = '''', accumulated_tool_calls = [],
               current_tool_call = None, yielded = []\<rparr>"
  let ?tc0 = "\<lparr>ac_id = i, ac_name = n, ac_arguments = JStr '''', ac_arguments_json = ''''\<rparr>"
  let ?tc1 = "\<lparr>ac_id = i, ac_name = n, ac_arguments = JStr '''', ac_arguments_json = concat frags\<rparr>"
  let ?st1 = "\<lparr>st_engine = ?eL, accumulated_content = '''', accumulated_tool_calls = [(i, ?tc1)],
               current_tool_call = Some i, yielded = []\<rparr>"
  obtain r eng where rt: "run_tool ?eL (Some n) arguments = (r, eng)"
    and tr: "trace eng = trace ?eL @ [ToolExecution (Some n) arguments]"
    using run_tool_effect by blast
  have loads: "(if ac_arguments_json ?tc1 \<noteq> '''' then json_loads lib (ac_arguments_json ?tc1)
                else Inr (JObj [])) = Inr arguments"
    using parse by (simp split: if_splits)
  let ?tc2 = "\<lparr>ac_id = i, ac_name = n, ac_arguments = arguments, ac_arguments_json = concat frags\<rparr>"
  have a: "consume_feed lib ?th ?st0 (start_event i n # map (\<lambda>f. delta_event (Some f)) frags @ [stop_event])
           = consume_feed lib ?th
               (?st0\<lparr>current_tool_call := Some i, accumulated_tool_calls := [(i, ?tc0)]\<rparr>)
               (map (\<lambda>f. delta_event (Some f)) frags @ [stop_event])"
    by (simp add: stream_chunk_start)
  have b: "consume_feed lib ?th
               (?st0\<lparr>current_tool_call := Some i, accumulated_tool_calls := [(i, ?tc0)]\<rparr>)
               (map (\<lambda>f. delta_event (Some f)) frags @ [stop_event])
           = consume_feed lib ?th ?st1 [stop_event]"
    using consume_feed_deltas [of "?st0\<lparr>current_tool_call := Some i, accumulated_tool_calls := [(i, ?tc0)]\<rparr>"
        i ?tc0 lib ?th frags "[stop_event]"]
    by simp
  show ?thesis
  proof (cases r)
    case (Inr res)
    let ?st2 = "\<lparr>st_engine = append_message eng (tool_message lib i res),
                 accumulated_content = tool_message_text lib res,
                 accumulated_tool_calls = [(i, ?tc2)],
                 current_tool_call = Some i,
                 yielded = [content_chunk (tool_message_text lib res)]\<rparr>"
    have ex: "execute_accumulated lib ?st1 (i, ?tc1) = (None, ?st2)"
      unfolding execute_accumulated_def prod.case loads
      using rt Inr by (simp add: Let_def yield_chunk_def content_chunk_def)
    have c: "consume_feed lib ?th ?st1 [stop_event] = (None, ?st2)"
      using ex by (simp add: stream_chunk_stop)
    have fin: "final_message ?st2 =
         \<lparr>role = ASSISTANT, content = tool_message_text lib res,
          tool_calls = Some [JObj [(''id'', JStr i), (''name'', JStr n), (''arguments'', arguments)]],
          tool_call_id = None\<rparr>"
      by (simp add: final_message_def)
    have "outcome = ([content_chunk (tool_message_text lib res)], None,
                     append_message (append_message eng (tool_message lib i res)) (final_message ?st2))"
      using tools_on um msgs0 tds feed a b c
      unfolding out stream_message_def Let_def get_messages_for_provider_def
      by simp
    with rt Inr tr fin show ?thesis
      by (intro exI [of _ "[Appended (tool_message lib i res), Appended (final_message ?st2)]"])
         (simp add: append_message_def log_event_def)
  next
    case (Inl ex)
    have nex: "\<not> is_Exception ex"
      using rt Inl run_tool_Inl_not_Exception by blast
    let ?st2 = "\<lparr>st_engine = eng, accumulated_content = '''',
                 accumulated_tool_calls = [(i, ?tc2)],
                 current_tool_call = Some i, yielded = []\<rparr>"
    have x: "execute_accumulated lib ?st1 (i, ?tc1) = (Some ex, ?st2)"
      unfolding execute_accumulated_def prod.case loads
      using rt Inl nex by (simp add: Let_def yield_error_def)
    have c: "consume_feed lib ?th ?st1 [stop_event] = (Some ex, ?st2)"
      using x by (simp add: stream_chunk_stop)
    have "outcome = ([], Some ex, eng)"
      using tools_on um msgs0 tds feed a b c pop_and_raise_not_Exception [OF nex, of eng]
      unfolding out stream_message_def Let_def get_messages_for_provider_def
      by simp
    with rt Inl tr show ?thesis
      by (intro exI [of _ "[]"]) (simp add: append_message_def log_event_def)
  qed
qed

theorem early_tool_call_delta_ignored_witness:
  "current_tool_call idle_state = None
   \<and> stream_chunk test_lib False idle_state (delta_event (Some ''{'')) = (None, idle_state)
   \<and> list_all (\<lambda>c. rd_tool_call_start c = None) [content_event ''x'']
   \<and> stream_message test_lib
        (provider_two_calls\<lparr>p_stream_message_with_tools :=
           (\<lambda>msgs tool_dicts. ([content_event ''x''] @ delta_event (Some ''{'') # [stop_event], None))\<rparr>)
        test_engine ''hi'' None None None =
      stream_message test_lib
        (provider_two_calls\<lparr>p_stream_message_with_tools :=
           (\<lambda>msgs tool_dicts. ([content_event ''x''] @ [stop_event], None))\<rparr>)
        test_engine ''hi'' None None None"
proof -
  have idle: "current_tool_call idle_state = None"
    by (simp add: idle_state_def)
  have pre: "list_all (\<lambda>c. rd_tool_call_start c = None) [content_event ''x'']"
    by (simp add: content_event_def empty_data_def)
  show ?thesis
    using idle pre
      early_tool_call_delta_ignored [of idle_state test_lib False "Some ''{''" "[content_event ''x'']"
        "[stop_event]" None provider_two_calls test_engine "''hi''" None None None]
    by blast
qed

theorem stream_message_executes_started_call_witness:
  "use_tools scenario_provider scenario_engine None None
   \<and> concat [fragment1, fragment2] \<noteq> ''''
   \<and> json_loads scenario_lib (concat [fragment1, fragment2]) = Inr calc_arguments
   \<and> trace (snd (snd (stream_message scenario_lib scenario_provider scenario_engine ''add'' None None None))) =
       [Appended (mk_msg USER ''add''),
        ProviderStreamMessageWithTools [mk_msg USER ''add''] (get_tool_schemas (tool_registry scenario_engine)),
        ToolExecution (Some ''calc'') calc_arguments,
        Appended \<lparr>role = TOOL, content = ''3'', tool_calls = None, tool_call_id = Some ''a''\<rparr>,
        Appended \<lparr>role = ASSISTANT, content = ''3'',
                  tool_calls = Some [JObj [(''id'', JStr ''a''), (''name'', JStr ''calc''),
                                           (''arguments'', calc_arguments)]],
                  tool_call_id = None\<rparr>]"
proof -
  let ?frags = "[fragment1, fragment2]"
  let ?tds = "get_tool_schemas (tool_registry scenario_engine)"
  let ?eL = "log_event (append_message scenario_engine (mk_msg USER ''add''))
               (ProviderStreamMessageWithTools [mk_msg USER ''add''] ?tds)"
  have on: "use_tools scenario_provider scenario_engine None None"
    by (simp add: turn_eval scenario_provider_def scenario_engine_def calc_tool_def)
  have um: "user_message scenario_lib (get_default None (enable_thinking (config scenario_engine))) ''add''
              = mk_msg USER ''add''"
    by (simp add: turn_eval scenario_engine_def scenario_lib_def)
  have m0: "messages (conversation (append_message scenario_engine (mk_msg USER ''add''))) = [mk_msg USER ''add'']"
    by (simp add: turn_eval scenario_engine_def)
  have tds: "get_default (available_tools scenario_provider scenario_engine None None) [] = ?tds"
    by (simp add: turn_eval scenario_provider_def scenario_engine_def calc_tool_def)
  have feed: "p_stream_message_with_tools scenario_provider [mk_msg USER ''add''] ?tds =
                (start_event ''a'' ''calc'' # map (\<lambda>f. delta_event (Some f)) ?frags @ [stop_event], None)"
    by (simp add: scenario_provider_def)
  have ne: "concat ?frags \<noteq> ''''"
    by (simp add: fragment1_def)
  have loads: "json_loads scenario_lib (concat ?frags) = Inr calc_arguments"
    by (simp add: scenario_lib_def)
  have parse: "if concat ?frags = '''' then calc_arguments = JObj []
               else json_loads scenario_lib (concat ?frags) = Inr calc_arguments"
    by (simp add: scenario_lib_def fragment1_def)
  have run: "fst (run_tool ?eL (Some ''calc'') calc_arguments) =
               Inr \<lparr>success = True, result = JInt 3, error = None, metadata = []\<rparr>"
    by (simp add: turn_eval scenario_engine_def calc_tool_def)
  have shown: "tool_message_text scenario_lib \<lparr>success = True, result = JInt 3, error = None, metadata = []\<rparr> = ''3''"
    by (simp add: tool_message_text_def scenario_lib_def str_int_def digit_char_def)
  let ?res = "\<lparr>success = True, result = JInt 3, error = None, metadata = []\<rparr>"
  from stream_message_executes_started_call
         [OF on um [symmetric] m0 [symmetric] tds [symmetric] feed parse refl]
  obtain tail where
    r1: "trace (snd (snd (stream_message scenario_lib scenario_provider scenario_engine ''add'' None None None))) =
       trace scenario_engine @
       [Appended (mk_msg USER ''add''),
        ProviderStreamMessageWithTools [mk_msg USER ''add''] ?tds,
        ToolExecution (Some ''calc'') calc_arguments] @ tail"
    and r2: "(case fst (run_tool ?eL (Some ''calc'') calc_arguments) of
                Inr res \<Rightarrow>
                  tail = [Appended (tool_message scenario_lib ''a'' res),
                          Appended \<lparr>role = ASSISTANT, content = tool_message_text scenario_lib res,
                                    tool_calls = Some [JObj [(''id'', JStr ''a''), (''name'', JStr ''calc''),
                                                             (''arguments'', calc_arguments)]],
                                    tool_call_id = None\<rparr>]
                  \<and> fst (snd (stream_message scenario_lib scenario_provider scenario_engine ''add'' None None None)) = None
                  \<and> fst (stream_message scenario_lib scenario_provider scenario_engine ''add'' None None None)
                      = [content_chunk (tool_message_text scenario_lib res)]
              | Inl ex \<Rightarrow>
                  tail = []
                  \<and> fst (snd (stream_message scenario_lib scenario_provider scenario_engine ''add'' None None None)) = Some ex
                  \<and> fst (stream_message scenario_lib scenario_provider scenario_engine ''add'' None None None) = [])"
    by blast
  from r2 have tail: "tail = [Appended (tool_message scenario_lib ''a'' ?res),
                          Appended \<lparr>role = ASSISTANT, content = tool_message_text scenario_lib ?res,
                                    tool_calls = Some [JObj [(''id'', JStr ''a''), (''name'', JStr ''calc''),
                                                             (''arguments'', calc_arguments)]],
                                    tool_call_id = None\<rparr>]"
    unfolding run by simp
  have "trace scenario_engine = []"
    by (simp add: scenario_engine_def test_engine_def)
  with r1 tail shown on ne loads show ?thesis
    by (simp add: tool_message_def)
qed

section \<open>Serialization round trip\<close>

lemma and_then_Inr [simp]: "and_then (Inr v) f = f v"
  by (simp add: and_then_def)

lemma and_then_Inl [simp]: "and_then (Inl ex) f = Inl ex"
  by (simp add: and_then_def)

lemma MessageRole_of_value [simp]: "MessageRole_of (role_value r) = Inr r"
  by (cases r) (simp_all add: MessageRole_of_def)

lemma Message_round_trip:
  "Message_from_dict (Message_to_dict m) = Inr (normalize_message m)"
proof (cases "tool_calls m")
  case None
  show ?thesis
  proof (cases "tool_call_id m")
    case n2: None
    with None show ?thesis
      by (simp add: Message_from_dict_def Message_to_dict_def normalize_message_def subscript_def)
  next
    case (Some i)
    with None show ?thesis
      by (cases "i = ''''")
         (simp_all add: Message_from_dict_def Message_to_dict_def normalize_message_def subscript_def)
  qed
next
  case (Some tcs)
  show ?thesis
  proof (cases "tool_call_id m")
    case None
    with Some show ?thesis
      by (cases "tcs = []")
         (simp_all add: Message_from_dict_def Message_to_dict_def normalize_message_def subscript_def)
  next
    case s2: (Some i)
    with Some show ?thesis
      by (cases "tcs = []"; cases "i = ''''")
         (simp_all add: Message_from_dict_def Message_to_dict_def normalize_message_def subscript_def)
  qed
qed

lemma messages_round_trip:
  "map_result Message_from_dict (map Message_to_dict ms) = Inr (map normalize_message ms)"
  by (induction ms) (simp_all add: Message_round_trip)

lemma tags_round_trip: "map_result as_str (map JStr ts) = Inr ts"
  by (induction ts) simp_all

lemma SessionInfo_round_trip:
  "and_then (as_dict (SessionInfo_asdict i)) SessionInfo_of_kwargs = Inr i"
  by (simp add: SessionInfo_asdict_def SessionInfo_of_kwargs_def SessionInfo_fields_def
      tags_round_trip)

lemma normalize_message_id:
  "no_empty_optionals m \<Longrightarrow> normalize_message m = m"
  by (simp add: no_empty_optionals_def normalize_message_def)

lemma ChatSession_round_trip_normalized:
  "ChatSession_from_dict (ChatSession_to_dict s) = Inr (normalize_session s)"
proof -
  have i: "SessionInfo_of_kwargs
             [(''session_id'', JStr (session_id (info s))), (''title'', JStr (title (info s))),
              (''created_at'', JStr (created_at (info s))), (''updated_at'', JStr (updated_at (info s))),
              (''provider'', JStr (provider (info s))), (''model'', JStr (model (info s))),
              (''message_count'', JInt (message_count (info s))),
              (''tags'', JList (map JStr (tags (info s))))] = Inr (info s)"
    using SessionInfo_round_trip [of "info s"] by (simp add: SessionInfo_asdict_def)
  show ?thesis
    by (cases "system_prompt (session_conversation s)")
       (simp_all add: ChatSession_from_dict_def ChatSession_to_dict_def subscript_def
          SessionInfo_asdict_def i messages_round_trip normalize_session_def)
qed

text \<open>
  C8. \<open>ChatSession.from_dict(session.to_dict())\<close> gives back the session with every
  empty \<open>tool_calls\<close> list and every empty \<open>tool_call_id\<close> replaced by \<open>None\<close>;
  for a session whose messages have no such empty field it gives back the session itself:
  the same \<open>SessionInfo\<close>, the same messages in the same order, the same \<open>max_history\<close>
  and \<open>system_prompt\<close>.
\<close>

theorem ChatSession_round_trip:
  "ChatSession_from_dict (ChatSession_to_dict s) = Inr (normalize_session s)
   \<and> (list_all no_empty_optionals (messages (session_conversation s)) \<longrightarrow>
        ChatSession_from_dict (ChatSession_to_dict s) = Inr s)"
proof (intro conjI impI)
  show "ChatSession_from_dict (ChatSession_to_dict s) = Inr (normalize_session s)"
    by (rule ChatSession_round_trip_normalized)
next
  assume "list_all no_empty_optionals (messages (session_conversation s))"
  then have "map normalize_message (messages (session_conversation s)) = messages (session_conversation s)"
    by (induction "messages (session_conversation s)") (simp_all add: list_all_iff normalize_message_id map_idI)
  then have "normalize_session s = s"
    by (simp add: normalize_session_def)
  then show "ChatSession_from_dict (ChatSession_to_dict s) = Inr s"
    by (simp add: ChatSession_round_trip_normalized)
qed

theorem ChatSession_round_trip_witness:
  "list_all no_empty_optionals (messages (session_conversation sample_session))
   \<and> ChatSession_from_dict (ChatSession_to_dict sample_session) = Inr sample_session"
proof -
  have "list_all no_empty_optionals (messages (session_conversation sample_session))"
    by (simp add: sample_session_def no_empty_optionals_def mk_msg_def)
  with ChatSession_round_trip [of sample_session] show ?thesis by blast
qed

text \<open>
  The property as the specification words it, for every session, fails on a tool message whose \<open>tool_call_id\<close>
  is the empty string: it comes back with \<open>tool_call_id = None\<close>.
\<close>

theorem ChatSession_round_trip_counterexample:
  "ChatSession_from_dict (ChatSession_to_dict session_with_empty_id) \<noteq> Inr session_with_empty_id
   \<and> ChatSession_from_dict (ChatSession_to_dict session_with_empty_id) =
       Inr (session_with_empty_id\<lparr>session_conversation :=
              (session_conversation session_with_empty_id)\<lparr>messages :=
                 [\<lparr>role = TOOL, content = ''ok'', tool_calls = None, tool_call_id = None\<rparr>]\<rparr>\<rparr>)"
  by (simp add: ChatSession_round_trip_normalized normalize_session_def normalize_message_def
      session_with_empty_id_def)

section \<open>The OpenRouter provider\<close>

text \<open>
  The two one-shot operations raise the labelled error. The two streamed operations, as the
  engine consumes them, raise a \<open>TypeError\<close> instead, before any item.
\<close>

lemma openrouter_message_operations_raise:
  "openrouter_create_message msgs = Inl not_yet_implemented
   \<and> openrouter_create_message_with_tools msgs tool_dicts = Inl not_yet_implemented
   \<and> openrouter_stream_message msgs = ([], Some async_for_type_error)
   \<and> openrouter_stream_message_with_tools msgs tool_dicts = ([], Some async_for_type_error)
   \<and> async_for_type_error \<noteq> not_yet_implemented"
  by (simp add: openrouter_create_message_def openrouter_stream_message_def
      openrouter_create_message_with_tools_def openrouter_stream_message_with_tools_def
      async_for_type_error_def not_yet_implemented_def)

text \<open>
  C9. The specification: every operation of the unimplemented provider raises a "not implemented"
  error. The code: \<open>get_model_info\<close> returns a placeholder \<open>ModelInfo\<close> for any model
  name, and \<open>list_models\<close> returns a one-element list built from it.
\<close>

theorem openrouter_model_operations_return_defaults:
  "openrouter_get_model_info model_name =
     Inr \<lparr>mi_name = model_name, mi_max_tokens = 4096, mi_supports_streaming = True,
          mi_supports_tools = True, mi_supports_thinking = False, mi_context_window = 200000,
          mi_input_cost_per_1k = 1 / 100, mi_output_cost_per_1k = 3 / 100\<rparr>
   \<and> openrouter_list_models =
     Inr [\<lparr>mi_name = ''anthropic/claude-3.5-sonnet'', mi_max_tokens = 4096,
           mi_supports_streaming = True, mi_supports_tools = True, mi_supports_thinking = False,
           mi_context_window = 200000, mi_input_cost_per_1k = 1 / 100,
           mi_output_cost_per_1k = 3 / 100\<rparr>]
   \<and> openrouter_get_model_info model_name \<noteq> Inl not_yet_implemented
   \<and> openrouter_list_models \<noteq> Inl not_yet_implemented"
  by (simp add: openrouter_get_model_info_def openrouter_list_models_def)

section \<open>Tool messages and the assistant message of their turn\<close>

lemma appended_append: "appended (xs @ ys) = appended xs @ appended ys"
  by (induction xs rule: appended.induct) simp_all

lemma add_messages_append:
  "add_messages c (xs @ ys) = add_messages (add_messages c xs) ys"
  by (simp add: add_messages_def)

lemma extends_refl: "extends e e []"
  by (simp add: extends_def add_messages_def)

lemma extends_trans:
  "extends e e' xs \<Longrightarrow> extends e' e'' ys \<Longrightarrow> extends e e'' (xs @ ys)"
  by (simp add: extends_def appended_append add_messages_append)

lemma extends_append_message: "extends e (append_message e m) [Appended m]"
  by (simp add: extends_def append_message_def add_messages_def)

lemma extends_log_event:
  "appended [ev] = [] \<Longrightarrow> extends e (log_event e ev) [ev]"
  by (simp add: extends_def log_event_def add_messages_def)

lemma run_tool_extends:
  "\<exists>r e'. run_tool e nm arguments = (r, e') \<and> extends e e' [ToolExecution nm arguments]"
proof -
  obtain r e' where "run_tool e nm arguments = (r, e')"
    "trace e' = trace e @ [ToolExecution nm arguments]" "conversation e' = conversation e"
    using run_tool_effect by blast
  then show ?thesis by (auto simp: extends_def add_messages_def)
qed

lemma appended_tool_round:
  "appended (tool_round lib tcs results) = tool_round_messages lib tcs results"
proof (induction tcs arbitrary: results)
  case Nil
  show ?case by (simp add: tool_round_def tool_round_messages_def)
next
  case (Cons tc tcs)
  show ?case
  proof (cases results)
    case Nil
    then show ?thesis by (simp add: tool_round_def tool_round_messages_def)
  next
    case (Cons res rest)
    with Cons.IH [of rest] show ?thesis
      by (simp add: tool_round_Cons tool_round_messages_Cons)
  qed
qed

lemma run_tool_calls_extends:
  "run_tool_calls lib e tcs acc = (Inr out, e') \<Longrightarrow>
   \<exists>results. length results = length tcs \<and> extends e e' (tool_round lib tcs results)"
proof (induction tcs arbitrary: e acc)
  case Nil
  then show ?case by (simp add: tool_round_def extends_refl)
next
  case (Cons tc tcs)
  let ?args = "get_default (req_arguments tc) (JObj [])"
  let ?id = "get_default (req_id tc) ''''"
  obtain r e1 where r: "run_tool e (req_name tc) ?args = (r, e1)"
    and x1: "extends e e1 [ToolExecution (req_name tc) ?args]"
    using run_tool_extends by blast
  show ?case
  proof (cases r)
    case (Inl ex)
    with Cons.prems r show ?thesis by (simp add: Let_def)
  next
    case (Inr res)
    let ?e2 = "append_message e1 (tool_message lib ?id res)"
    let ?acc = "acc @ [(?id, (if success res then result res else JStr (''Error: '' @ str_opt (error res))), success res)]"
    have run: "run_tool_calls lib ?e2 tcs ?acc = (Inr out, e')"
      using Cons.prems r Inr by (simp add: Let_def)
    from Cons.IH [OF run] obtain results where
      len: "length results = length tcs"
      and x3: "extends ?e2 e' (tool_round lib tcs results)"
      by blast
    have "extends e e' ([ToolExecution (req_name tc) ?args] @ [Appended (tool_message lib ?id res)]
                         @ tool_round lib tcs results)"
      using extends_trans [OF x1 extends_trans [OF extends_append_message x3]] .
    then have "extends e e' (tool_round lib (tc # tcs) (res # results))"
      by (simp add: tool_round_Cons tool_message_expected)
    with len show ?thesis
      by (intro exI [of _ "res # results"]) simp
  qed
qed

lemma message_tool_call_ids_assistant:
  "message_tool_call_ids
     (assistant_message (process_response lib
        (empty_data\<lparr>rd_content := c, rd_tool_calls := Some tcs, rd_tool_results := tr\<rparr>) thinking))
   = map (\<lambda>tc. get_default (req_id tc) '''') tcs"
proof -
  have "concat (map tool_call_dict_id (map ToolCall_to_dict (map request_to_ToolCall tcs)))
          = map (\<lambda>tc. get_default (req_id tc) '''') tcs"
    by (induction tcs) (simp_all add: ToolCall_to_dict_def request_to_ToolCall_def)
  then show ?thesis
    by (cases "tcs = []")
       (simp_all add: message_tool_call_ids_def assistant_message_def process_response_def
          empty_data_def Let_def)
qed

lemma answered_by_final_assistant_turn:
  assumes "role um \<noteq> TOOL" and "role a = ASSISTANT"
    and "set (map (\<lambda>tc. get_default (req_id tc) '''') tcs) \<subseteq> set (message_tool_call_ids a)"
  shows "answered_by_final_assistant (um # tool_round_messages lib tcs results @ [a])"
proof -
  have "role m \<noteq> TOOL \<or>
        (case tool_call_id m of None \<Rightarrow> False | Some i \<Rightarrow> i \<in> set (message_tool_call_ids a))"
    if "m \<in> set (tool_round_messages lib tcs results)" for m
  proof -
    from that obtain tc res where "(tc, res) \<in> set (zip tcs results)"
      and m: "m = tool_message lib (get_default (req_id tc) '''') res"
      by (auto simp: tool_round_messages_def tool_message_expected)
    then have "tc \<in> set tcs" by (auto dest: set_zip_leftD)
    with assms(3) m show ?thesis by (auto simp: tool_message_def)
  qed
  then have "list_all (\<lambda>m. role m \<noteq> TOOL \<or>
                 (case tool_call_id m of None \<Rightarrow> False
                  | Some i \<Rightarrow> i \<in> set (message_tool_call_ids a)))
               (tool_round_messages lib tcs results)"
    by (simp add: list_all_iff)
  moreover have l: "last (um # tool_round_messages lib tcs results @ [a]) = a"
    by simp
  moreover have b: "butlast (um # tool_round_messages lib tcs results @ [a])
                   = um # tool_round_messages lib tcs results"
    by (simp add: butlast_append)
  ultimately show ?thesis
    unfolding answered_by_final_assistant_def l b using assms(1,2) by simp
qed

lemma send_continue_turn:
  assumes "(case (if get_default (rd_tool_calls response_data) [] \<noteq> []
                  then handle_tool_calls lib prov eL response_data
                  else (Inr response_data, eL)) of
              (Inl ex, e2) \<Rightarrow> (Inl ex, e2)
            | (Inr response_data', e2) \<Rightarrow>
                (let chat_response = process_response lib response_data' thinking
                 in (Inr chat_response, append_message e2 (assistant_message chat_response))))
           = (Inr r, e')"
  shows "\<exists>tcs results evs. extends eL e' evs
           \<and> appended evs = tool_round_messages lib tcs results @ [assistant_message r]
           \<and> set (map (\<lambda>tc. get_default (req_id tc) '''') tcs)
               \<subseteq> set (message_tool_call_ids (assistant_message r))"
proof (cases "get_default (rd_tool_calls response_data) [] = []")
  case True
  with assms have r: "r = process_response lib response_data thinking"
    and e': "e' = append_message eL (assistant_message r)"
    by (auto simp: Let_def)
  have "extends eL e' [Appended (assistant_message r)]"
    unfolding e' by (rule extends_append_message)
  then show ?thesis
    by (intro exI [of _ "[]"] exI [of _ "[Appended (assistant_message r)]"])
       (simp add: tool_round_messages_def)
next
  case False
  let ?tcs = "get_default (rd_tool_calls response_data) []"
  obtain out e1 where run: "run_tool_calls lib eL ?tcs [] = (Inr out, e1)"
  proof (cases "run_tool_calls lib eL ?tcs []")
    case (Pair r1 e1)
    with assms False that show ?thesis
      by (cases r1) (simp_all add: handle_tool_calls_def Let_def)
  qed
  obtain results where x1: "extends eL e1 (tool_round lib ?tcs results)"
    using run_tool_calls_extends [OF run] by blast
  let ?msgs = "get_messages_for_provider (conversation e1)"
  let ?e2 = "log_event e1 (ProviderCreateMessage ?msgs)"
  have x2: "extends e1 ?e2 [ProviderCreateMessage ?msgs]"
    by (rule extends_log_event) simp
  show ?thesis
  proof (cases "p_create_message prov ?msgs")
    case (Inl ex)
    with assms False run show ?thesis
      by (simp add: handle_tool_calls_def Let_def)
  next
    case (Inr final_response)
    let ?rd = "empty_data\<lparr>rd_content := Some final_response, rd_tool_calls := Some ?tcs,
                           rd_tool_results := Some out\<rparr>"
    from assms False run Inr
    have r: "r = process_response lib ?rd thinking"
      and e': "e' = append_message ?e2 (assistant_message r)"
      by (auto simp: handle_tool_calls_def Let_def)
    have "extends eL e' (tool_round lib ?tcs results @ [ProviderCreateMessage ?msgs]
                          @ [Appended (assistant_message r)])"
      unfolding e'
      using extends_trans [OF x1 extends_trans [OF x2 extends_append_message]] .
    moreover have "message_tool_call_ids (assistant_message r)
                     = map (\<lambda>tc. get_default (req_id tc) '''') ?tcs"
      unfolding r by (rule message_tool_call_ids_assistant)
    ultimately show ?thesis
      by (intro exI [of _ ?tcs] exI [of _ results]
            exI [of _ "tool_round lib ?tcs results @ [ProviderCreateMessage ?msgs]
                          @ [Appended (assistant_message r)]"])
         (simp add: appended_append appended_tool_round)
  qed
qed

lemma send_try_turn:
  assumes "send_try lib prov e1 thinking with_tools tool_dicts = (Inr r, e')"
  shows "\<exists>tcs results evs. extends e1 e' evs
           \<and> appended evs = tool_round_messages lib tcs results @ [assistant_message r]
           \<and> set (map (\<lambda>tc. get_default (req_id tc) '''') tcs)
               \<subseteq> set (message_tool_call_ids (assistant_message r))"
proof -
  let ?msgs = "get_messages_for_provider (conversation e1)"
  have "\<exists>ev response_data. appended [ev] = [] \<and>
          (case (if get_default (rd_tool_calls response_data) [] \<noteq> []
                  then handle_tool_calls lib prov (log_event e1 ev) response_data
                  else (Inr response_data, log_event e1 ev)) of
              (Inl ex, e2) \<Rightarrow> (Inl ex, e2)
            | (Inr response_data', e2) \<Rightarrow>
                (let chat_response = process_response lib response_data' thinking
                 in (Inr chat_response, append_message e2 (assistant_message chat_response))))
           = (Inr r, e')"
  proof (cases with_tools)
    case True
    show ?thesis
    proof (cases "p_create_message_with_tools prov ?msgs tool_dicts")
      case (Inl ex)
      with assms True show ?thesis by (simp add: send_try_def Let_def)
    next
      case (Inr response_data)
      with assms True show ?thesis
        by (intro exI [of _ "ProviderCreateMessageWithTools ?msgs tool_dicts"] exI [of _ response_data])
           (simp add: send_try_def Let_def)
    qed
  next
    case False
    show ?thesis
    proof (cases "p_create_message prov ?msgs")
      case (Inl ex)
      with assms False show ?thesis by (simp add: send_try_def Let_def)
    next
      case (Inr response_content)
      with assms False show ?thesis
        by (intro exI [of _ "ProviderCreateMessage ?msgs"]
              exI [of _ "empty_data\<lparr>rd_content := Some response_content\<rparr>"])
           (simp add: send_try_def Let_def)
    qed
  qed
  then obtain ev response_data where ev: "appended [ev] = []"
    and cont: "(case (if get_default (rd_tool_calls response_data) [] \<noteq> []
                  then handle_tool_calls lib prov (log_event e1 ev) response_data
                  else (Inr response_data, log_event e1 ev)) of
              (Inl ex, e2) \<Rightarrow> (Inl ex, e2)
            | (Inr response_data', e2) \<Rightarrow>
                (let chat_response = process_response lib response_data' thinking
                 in (Inr chat_response, append_message e2 (assistant_message chat_response))))
           = (Inr r, e')"
    by blast
  from send_continue_turn [OF cont] obtain tcs results evs where
    x: "extends (log_event e1 ev) e' evs"
    and a: "appended evs = tool_round_messages lib tcs results @ [assistant_message r]"
    and ids: "set (map (\<lambda>tc. get_default (req_id tc) '''') tcs)
               \<subseteq> set (message_tool_call_ids (assistant_message r))"
    by blast
  have x': "extends e1 e' ([ev] @ evs)"
    using extends_trans [OF extends_log_event [OF ev] x] .
  have "appended ([ev] @ evs) = tool_round_messages lib tcs results @ [assistant_message r]"
    unfolding appended_append ev a by simp
  with x' ids show ?thesis by blast
qed

lemma send_message_turn:
  assumes "send_message lib prov e txt thinking_mode tools_arg enable_tools_arg = (Inr r, e')"
  shows "\<exists>turn. appended (drop (length (trace e)) (trace e')) = turn
           \<and> conversation e' = add_messages (conversation e) turn
           \<and> answered_by_final_assistant turn"
proof -
  let ?th = "get_default thinking_mode (enable_thinking (config e))"
  let ?um = "user_message lib ?th txt"
  let ?e1 = "append_message e ?um"
  from assms have st: "send_try lib prov ?e1 ?th (use_tools prov e tools_arg enable_tools_arg)
      (get_default (available_tools prov e tools_arg enable_tools_arg) []) = (Inr r, e')"
    by (simp add: send_message_def Let_def split: prod.splits sum.splits)
  from send_try_turn [OF st] obtain tcs results evs where
    x: "extends ?e1 e' evs"
    and a: "appended evs = tool_round_messages lib tcs results @ [assistant_message r]"
    and ids: "set (map (\<lambda>tc. get_default (req_id tc) '''') tcs)
               \<subseteq> set (message_tool_call_ids (assistant_message r))"
    by blast
  have x': "extends e e' ([Appended ?um] @ evs)"
    using extends_trans [OF extends_append_message x] .
  then have tr: "trace e' = trace e @ [Appended ?um] @ evs"
    by (simp add: extends_def)
  have turn: "appended ([Appended ?um] @ evs) = ?um # tool_round_messages lib tcs results @ [assistant_message r]"
    unfolding appended_append a by simp
  have "answered_by_final_assistant (?um # tool_round_messages lib tcs results @ [assistant_message r])"
    by (rule answered_by_final_assistant_turn [OF _ _ ids])
       (simp_all add: user_message_def assistant_message_def)
  with x' tr turn show ?thesis
    by (simp add: extends_def)
qed

lemma feed_invariant_start: "feed_invariant e0 \<lparr>st_engine = e0, accumulated_content = c,
    accumulated_tool_calls = a, current_tool_call = k, yielded = y\<rparr>"
  unfolding feed_invariant_def
  by (rule exI [of _ "[]"]) (simp add: extends_refl)

lemma feed_invariant_mono:
  assumes "feed_invariant e0 st" and "st_engine st' = st_engine st"
    and "fst ` set (accumulated_tool_calls st) \<subseteq> fst ` set (accumulated_tool_calls st')"
  shows "feed_invariant e0 st'"
proof -
  from assms(1) obtain evs where x: "extends e0 (st_engine st) evs"
    and l: "list_all (\<lambda>m. role m = TOOL \<and>
                           tool_call_id m \<in> Some ` fst ` set (accumulated_tool_calls st))
                     (appended evs)"
    unfolding feed_invariant_def by blast
  have "Some ` fst ` set (accumulated_tool_calls st) \<subseteq> Some ` fst ` set (accumulated_tool_calls st')"
    using assms(3) by (rule image_mono)
  with l have "list_all (\<lambda>m. role m = TOOL \<and>
                           tool_call_id m \<in> Some ` fst ` set (accumulated_tool_calls st'))
                     (appended evs)"
    unfolding list_all_iff by blast
  with x assms(2) show ?thesis
    unfolding feed_invariant_def by auto
qed

lemma feed_invariant_yield_chunk:
  "feed_invariant e0 st \<Longrightarrow> feed_invariant e0 (yield_chunk st c)"
  by (erule feed_invariant_mono) (simp_all add: yield_chunk_def)

lemma yield_chunk_keys [simp]:
  "accumulated_tool_calls (yield_chunk st c) = accumulated_tool_calls st"
  by (simp add: yield_chunk_def)

lemma yield_error_invariant:
  "feed_invariant e0 st \<Longrightarrow> feed_invariant e0 (snd (yield_error st tool_call ex))"
  by (simp add: yield_error_def feed_invariant_yield_chunk)

lemma yield_error_keys [simp]:
  "accumulated_tool_calls (snd (yield_error st tool_call ex)) = accumulated_tool_calls st"
  by (simp add: yield_error_def)

lemma execute_accumulated_invariant:
  assumes inv: "feed_invariant e0 st" and key: "tool_id \<in> fst ` set (accumulated_tool_calls st)"
  shows "feed_invariant e0 (snd (execute_accumulated lib st (tool_id, tc)))
         \<and> fst ` set (accumulated_tool_calls (snd (execute_accumulated lib st (tool_id, tc))))
             = fst ` set (accumulated_tool_calls st)"
proof (cases "if ac_arguments_json tc \<noteq> '''' then json_loads lib (ac_arguments_json tc)
              else Inr (JObj [])")
  case (Inl ex)
  then have "execute_accumulated lib st (tool_id, tc) = yield_error st tc ex"
    unfolding execute_accumulated_def prod.case by simp
  with inv show ?thesis by (simp add: yield_error_invariant)
next
  case (Inr arguments)
  let ?st1 = "st\<lparr>accumulated_tool_calls :=
                   AList.update tool_id (tc\<lparr>ac_arguments := arguments\<rparr>) (accumulated_tool_calls st)\<rparr>"
  have keys1: "fst ` set (accumulated_tool_calls ?st1) = fst ` set (accumulated_tool_calls st)"
    using key by (auto simp: dom_update)
  have inv1: "feed_invariant e0 ?st1"
    by (rule feed_invariant_mono [OF inv]) (auto simp: dom_update)
  obtain r eng where rt: "run_tool (st_engine st) (Some (ac_name tc)) arguments = (r, eng)"
    and x1: "extends (st_engine st) eng [ToolExecution (Some (ac_name tc)) arguments]"
    using run_tool_extends by blast
  from inv obtain evs where x0: "extends e0 (st_engine st) evs"
    and l0: "list_all (\<lambda>m. role m = TOOL \<and>
                           tool_call_id m \<in> Some ` fst ` set (accumulated_tool_calls st))
                     (appended evs)"
    unfolding feed_invariant_def by blast
  show ?thesis
  proof (cases r)
    case (Inl ex)
    let ?st2 = "?st1\<lparr>st_engine := eng\<rparr>"
    have ex: "execute_accumulated lib st (tool_id, tc) = yield_error ?st2 tc ex"
      unfolding execute_accumulated_def prod.case \<open>_ = Inr arguments\<close>
      using rt Inl by (simp add: Let_def)
    have x2: "extends e0 eng (evs @ [ToolExecution (Some (ac_name tc)) arguments])"
      using extends_trans [OF x0 x1] .
    have ap: "appended (evs @ [ToolExecution (Some (ac_name tc)) arguments]) = appended evs"
      unfolding appended_append by simp
    have "list_all (\<lambda>m. role m = TOOL \<and>
                             tool_call_id m \<in> Some ` fst ` set (accumulated_tool_calls ?st2))
                       (appended evs)"
      using l0 key keys1 by (auto simp: list_all_iff)
    with x2 ap have "feed_invariant e0 ?st2"
      unfolding feed_invariant_def
      by (intro exI [of _ "evs @ [ToolExecution (Some (ac_name tc)) arguments]"]) simp
    with ex keys1 show ?thesis
      by (simp add: yield_error_invariant)
  next
    case (Inr res)
    let ?m = "tool_message lib tool_id res"
    let ?st2 = "?st1\<lparr>st_engine := append_message eng ?m\<rparr>"
    have ex: "execute_accumulated lib st (tool_id, tc) =
                (None, yield_chunk ?st2 (content_chunk (tool_message_text lib res)))"
      unfolding execute_accumulated_def prod.case \<open>_ = Inr arguments\<close>
      using rt Inr by (simp add: Let_def)
    have x2: "extends e0 (append_message eng ?m)
                (evs @ [ToolExecution (Some (ac_name tc)) arguments] @ [Appended ?m])"
      using extends_trans [OF x0 extends_trans [OF x1 extends_append_message]] .
    have ap: "appended (evs @ [ToolExecution (Some (ac_name tc)) arguments] @ [Appended ?m])
                = appended evs @ [?m]"
      unfolding appended_append by simp
    have "list_all (\<lambda>m. role m = TOOL \<and>
                             tool_call_id m \<in> Some ` fst ` set (accumulated_tool_calls ?st2))
                       (appended evs @ [?m])"
      using l0 key keys1 by (auto simp: list_all_iff tool_message_def)
    with x2 ap have "feed_invariant e0 ?st2"
      unfolding feed_invariant_def
      by (intro exI [of _ "evs @ [ToolExecution (Some (ac_name tc)) arguments] @ [Appended ?m]"]) simp
    with ex keys1 show ?thesis
      by (simp add: feed_invariant_yield_chunk)
  qed
qed

lemma execute_all_invariant:
  assumes "feed_invariant e0 st" and "fst ` set items \<subseteq> fst ` set (accumulated_tool_calls st)"
  shows "feed_invariant e0 (snd (execute_all lib st items))"
  using assms
proof (induction items arbitrary: st)
  case Nil
  then show ?case by simp
next
  case (Cons item items)
  obtain tool_id tc where item: "item = (tool_id, tc)" by (cases item)
  with Cons.prems have key: "tool_id \<in> fst ` set (accumulated_tool_calls st)" by auto
  obtain x st' where step: "execute_accumulated lib st item = (x, st')"
    by (cases "execute_accumulated lib st item")
  from execute_accumulated_invariant [OF Cons.prems(1) key, of lib tc] item step
  have inv': "feed_invariant e0 st'"
    and keys': "fst ` set (accumulated_tool_calls st') = fst ` set (accumulated_tool_calls st)"
    by simp_all
  show ?case
  proof (cases x)
    case None
    have "feed_invariant e0 (snd (execute_all lib st' items))"
      using Cons.prems(2) keys' by (intro Cons.IH [OF inv']) auto
    with step None show ?thesis by simp
  next
    case (Some ex)
    with step inv' show ?thesis by simp
  qed
qed

lemma dom_map_entry: "fst ` set (AList.map_entry k f al) = fst ` set al"
  by (induction al) auto

lemma stream_chunk_invariant:
  assumes "feed_invariant e0 st"
  shows "feed_invariant e0 (snd (stream_chunk lib thinking st chunk_data))"
proof -
  have start: "feed_invariant e0 (st\<lparr>current_tool_call := k, accumulated_tool_calls := AList.update i tc (accumulated_tool_calls st)\<rparr>)"
    for k i tc
    by (rule feed_invariant_mono [OF assms]) (auto simp: dom_update)
  have delta: "feed_invariant e0 (st\<lparr>accumulated_tool_calls := AList.map_entry k f (accumulated_tool_calls st)\<rparr>)"
    for k f
    by (rule feed_invariant_mono [OF assms]) (simp_all add: dom_map_entry)
  have stop: "feed_invariant e0 (snd (execute_all lib st (accumulated_tool_calls st)))"
    by (rule execute_all_invariant [OF assms]) simp
  show ?thesis
    using assms start delta stop
    by (auto simp: stream_chunk_def Let_def feed_invariant_yield_chunk
             split: option.splits prod.splits)
qed

lemma consume_feed_invariant:
  "feed_invariant e0 st \<Longrightarrow> feed_invariant e0 (snd (consume_feed lib thinking st chunks))"
proof (induction chunks arbitrary: st)
  case Nil
  then show ?case by simp
next
  case (Cons c chunks)
  obtain x st' where step: "stream_chunk lib thinking st c = (x, st')"
    by (cases "stream_chunk lib thinking st c")
  with stream_chunk_invariant [OF Cons.prems, of lib thinking c]
  have inv': "feed_invariant e0 st'" by simp
  show ?case
  proof (cases x)
    case None
    with step Cons.IH [OF inv'] show ?thesis by simp
  next
    case (Some ex)
    with step inv' show ?thesis by simp
  qed
qed

lemma consume_plain_invariant:
  "feed_invariant e0 st \<Longrightarrow> feed_invariant e0 (consume_plain st chunks)"
  unfolding consume_plain_def
  by (induction chunks arbitrary: st) (simp_all add: feed_invariant_yield_chunk)

lemma message_tool_call_ids_final:
  "message_tool_call_ids (final_message st) = map fst (accumulated_tool_calls st)"
proof -
  have ids: "concat (map (tool_call_dict_id \<circ>
          (\<lambda>(tool_id, tool_call).
                   JObj [(''id'', JStr tool_id), (''name'', JStr (ac_name tool_call)),
                         (''arguments'', ac_arguments tool_call)])) al) = map fst al" for al
    by (induction al) auto
  show ?thesis
    by (simp add: message_tool_call_ids_def final_message_def Let_def ids)
qed

lemma map_entry_keys: "map fst (AList.map_entry k f al) = map fst al"
  by (induction al) auto

lemma execute_accumulated_distinct:
  assumes "distinct (map fst (accumulated_tool_calls st))"
  shows "distinct (map fst (accumulated_tool_calls (snd (execute_accumulated lib st item))))"
proof (cases item)
  case (Pair tool_id tc)
  show ?thesis
  proof (cases "if ac_arguments_json tc \<noteq> '''' then json_loads lib (ac_arguments_json tc)
                else Inr (JObj [])")
    case (Inl ex)
    with assms Pair show ?thesis
      unfolding execute_accumulated_def by simp
  next
    case (Inr arguments)
    obtain r eng where rt: "run_tool (st_engine st) (Some (ac_name tc)) arguments = (r, eng)"
      by (cases "run_tool (st_engine st) (Some (ac_name tc)) arguments")
    with assms Pair Inr show ?thesis
      unfolding execute_accumulated_def
      by (cases r) (simp_all add: Let_def distinct_update)
  qed
qed

lemma execute_all_distinct:
  "distinct (map fst (accumulated_tool_calls st)) \<Longrightarrow>
   distinct (map fst (accumulated_tool_calls (snd (execute_all lib st items))))"
proof (induction items arbitrary: st)
  case Nil
  then show ?case by simp
next
  case (Cons item items)
  obtain x st' where step: "execute_accumulated lib st item = (x, st')"
    by (cases "execute_accumulated lib st item")
  with execute_accumulated_distinct [OF Cons.prems, of lib item]
  have d: "distinct (map fst (accumulated_tool_calls st'))" by simp
  show ?case
  proof (cases x)
    case None
    with step Cons.IH [OF d] show ?thesis by simp
  next
    case (Some ex)
    with step d show ?thesis by simp
  qed
qed

lemma stream_chunk_distinct:
  assumes "distinct (map fst (accumulated_tool_calls st))"
  shows "distinct (map fst (accumulated_tool_calls (snd (stream_chunk lib thinking st chunk_data))))"
  using assms execute_all_distinct [OF assms, of lib "accumulated_tool_calls st"]
  by (auto simp: stream_chunk_def Let_def distinct_update map_entry_keys
           split: option.splits prod.splits)

lemma consume_feed_distinct:
  "distinct (map fst (accumulated_tool_calls st)) \<Longrightarrow>
   distinct (map fst (accumulated_tool_calls (snd (consume_feed lib thinking st chunks))))"
proof (induction chunks arbitrary: st)
  case Nil
  then show ?case by simp
next
  case (Cons c chunks)
  obtain x st' where step: "stream_chunk lib thinking st c = (x, st')"
    by (cases "stream_chunk lib thinking st c")
  with stream_chunk_distinct [OF Cons.prems, of lib thinking c]
  have d: "distinct (map fst (accumulated_tool_calls st'))" by simp
  show ?case
  proof (cases x)
    case None
    with step Cons.IH [OF d] show ?thesis by simp
  next
    case (Some ex)
    with step d show ?thesis by simp
  qed
qed

lemma consume_plain_keys [simp]:
  "accumulated_tool_calls (consume_plain st chunks) = accumulated_tool_calls st"
  unfolding consume_plain_def by (induction chunks arbitrary: st) simp_all

lemma answered_by_final_assistant_intro:
  assumes "role um \<noteq> TOOL" and "role a = ASSISTANT"
    and "list_all (\<lambda>m. role m = TOOL \<and> tool_call_id m \<in> Some ` set (message_tool_call_ids a)) ms"
  shows "answered_by_final_assistant (um # ms @ [a])"
proof -
  have l: "last (um # ms @ [a]) = a"
    by simp
  have b: "butlast (um # ms @ [a]) = um # ms"
    by (simp add: butlast_append)
  have "list_all (\<lambda>m. role m \<noteq> TOOL \<or>
                 (case tool_call_id m of None \<Rightarrow> False
                  | Some i \<Rightarrow> i \<in> set (message_tool_call_ids a))) ms"
    using assms(3) unfolding list_all_iff by auto
  then show ?thesis
    unfolding answered_by_final_assistant_def l b using assms(1,2) by simp
qed

lemma stream_message_turn:
  assumes "stream_message lib prov e txt thinking_mode tools_arg enable_tools_arg = (ys, None, e')"
  shows "\<exists>turn. appended (drop (length (trace e)) (trace e')) = turn
           \<and> conversation e' = add_messages (conversation e) turn
           \<and> answered_by_final_assistant turn
           \<and> distinct (message_tool_call_ids (last turn))"
proof -
  let ?th = "get_default thinking_mode (enable_thinking (config e))"
  let ?um = "user_message lib ?th txt"
  let ?e1 = "append_message e ?um"
  let ?msgs = "get_messages_for_provider (conversation ?e1)"
  let ?tds = "get_default (available_tools prov e tools_arg enable_tools_arg) []"
  have "\<exists>ev stF. appended [ev] = [] \<and> feed_invariant (log_event ?e1 ev) stF
          \<and> distinct (map fst (accumulated_tool_calls stF))
          \<and> e' = append_message (st_engine stF) (final_message stF)"
  proof (cases "use_tools prov e tools_arg enable_tools_arg")
    case True
    let ?ev = "ProviderStreamMessageWithTools ?msgs ?tds"
    let ?st0 = "\<lparr>st_engine = log_event ?e1 ?ev, accumulated_content = '''',
                 accumulated_tool_calls = [], current_tool_call = None, yielded = []\<rparr>"
    obtain chunks feed_ex where feed: "p_stream_message_with_tools prov ?msgs ?tds = (chunks, feed_ex)"
      by (cases "p_stream_message_with_tools prov ?msgs ?tds")
    obtain x stF where run: "consume_feed lib ?th ?st0 chunks = (x, stF)"
      by (cases "consume_feed lib ?th ?st0 chunks")
    have inv: "feed_invariant (log_event ?e1 ?ev) stF"
      using consume_feed_invariant [OF feed_invariant_start, of "log_event ?e1 ?ev" lib ?th "''''" "[]" None "[]" chunks]
        run by simp
    have dist: "distinct (map fst (accumulated_tool_calls stF))"
      using consume_feed_distinct [of ?st0 lib ?th chunks] run by simp
    have "e' = append_message (st_engine stF) (final_message stF)"
      using assms True feed run
      by (cases x; cases feed_ex) (simp_all add: stream_message_def Let_def split: prod.splits)
    with inv dist show ?thesis
      by (intro exI [of _ ?ev] exI [of _ stF]) simp
  next
    case False
    let ?ev = "ProviderStreamMessage ?msgs"
    let ?st0 = "\<lparr>st_engine = log_event ?e1 ?ev, accumulated_content = '''',
                 accumulated_tool_calls = [], current_tool_call = None, yielded = []\<rparr>"
    obtain chunks feed_ex where feed: "p_stream_message prov ?msgs = (chunks, feed_ex)"
      by (cases "p_stream_message prov ?msgs")
    let ?stF = "consume_plain ?st0 chunks"
    have inv: "feed_invariant (log_event ?e1 ?ev) ?stF"
      by (rule consume_plain_invariant [OF feed_invariant_start])
    have dist: "distinct (map fst (accumulated_tool_calls ?stF))"
      by simp
    have "e' = append_message (st_engine ?stF) (final_message ?stF)"
      using assms False feed
      by (cases feed_ex) (simp_all add: stream_message_def Let_def split: prod.splits)
    with inv dist show ?thesis
      by (intro exI [of _ ?ev] exI [of _ ?stF]) simp
  qed
  then obtain ev stF where ev: "appended [ev] = []"
    and inv: "feed_invariant (log_event ?e1 ev) stF"
    and dist: "distinct (map fst (accumulated_tool_calls stF))"
    and e': "e' = append_message (st_engine stF) (final_message stF)"
    by blast
  from inv obtain evs where x: "extends (log_event ?e1 ev) (st_engine stF) evs"
    and l: "list_all (\<lambda>m. role m = TOOL \<and>
                           tool_call_id m \<in> Some ` fst ` set (accumulated_tool_calls stF))
                     (appended evs)"
    unfolding feed_invariant_def by blast
  let ?all = "[Appended ?um] @ [ev] @ evs @ [Appended (final_message stF)]"
  have x': "extends e e' ?all"
    unfolding e'
    using extends_trans [OF extends_append_message
            extends_trans [OF extends_log_event [OF ev] extends_trans [OF x extends_append_message]]] .
  have turn: "appended ?all = ?um # appended evs @ [final_message stF]"
    unfolding appended_append ev by simp
  have l': "list_all (\<lambda>m. role m = TOOL \<and>
                  tool_call_id m \<in> Some ` set (message_tool_call_ids (final_message stF)))
              (appended evs)"
    using l by (simp add: message_tool_call_ids_final)
  have "answered_by_final_assistant (?um # appended evs @ [final_message stF])"
    by (rule answered_by_final_assistant_intro [OF _ _ l'])
       (simp_all add: user_message_def final_message_def Let_def)
  moreover have "trace e' = trace e @ ?all"
    using x' by (simp add: extends_def)
  moreover have "distinct (message_tool_call_ids (last (?um # appended evs @ [final_message stF])))"
    using dist by (simp add: message_tool_call_ids_final)
  ultimately show ?thesis
    using x' turn by (simp add: extends_def)
qed

text \<open>
  C6, as the code has it. In a \<open>send_message\<close> turn that returns, and in a
  \<open>stream_message\<close> turn that ends without an exception, the conversation grows by the
  turn's messages through \<open>add_message\<close>; the last of them is the assistant message, and
  every tool message of the turn carries a \<open>tool_call_id\<close> that this assistant message
  lists among its \<open>tool_calls\<close> ids. The assistant message comes after the tool messages.
  In a streamed turn the ids it lists are distinct, so the id is listed exactly once.
\<close>

theorem tool_messages_answered_by_turn_assistant:
  "(\<forall>r e'. send_message lib prov e txt thinking_mode tools_arg enable_tools_arg = (Inr r, e') \<longrightarrow>
       conversation e' = add_messages (conversation e) (turn_messages e e')
       \<and> answered_by_final_assistant (turn_messages e e'))
   \<and> (\<forall>ys e'. stream_message lib prov e txt thinking_mode tools_arg enable_tools_arg = (ys, None, e') \<longrightarrow>
       conversation e' = add_messages (conversation e) (turn_messages e e')
       \<and> answered_by_final_assistant (turn_messages e e')
       \<and> distinct (message_tool_call_ids (last (turn_messages e e'))))"
proof (intro conjI allI impI)
  fix r e'
  assume "send_message lib prov e txt thinking_mode tools_arg enable_tools_arg = (Inr r, e')"
  from send_message_turn [OF this]
  show "conversation e' = add_messages (conversation e) (turn_messages e e')"
    and "answered_by_final_assistant (turn_messages e e')"
    by (simp_all add: turn_messages_def)
next
  fix ys e'
  assume "stream_message lib prov e txt thinking_mode tools_arg enable_tools_arg = (ys, None, e')"
  from stream_message_turn [OF this]
  show "conversation e' = add_messages (conversation e) (turn_messages e e')"
    and "answered_by_final_assistant (turn_messages e e')"
    and "distinct (message_tool_call_ids (last (turn_messages e e')))"
    by (simp_all add: turn_messages_def)
qed

lemmas stream_eval =
  stream_message_def stream_chunk_def execute_accumulated_def yield_error_def yield_chunk_def
  content_chunk_def
  final_message_def start_event_def delta_event_def stop_event_def
  scenario_lib_def scenario_engine_def scenario_provider_def calc_tool_def

theorem tool_messages_answered_by_turn_assistant_witness:
  "answered_by_final_assistant
     (turn_messages test_engine
        (snd (send_message test_lib provider_two_calls test_engine ''hi'' None None None)))
   \<and> answered_by_final_assistant
     (turn_messages scenario_engine
        (snd (snd (stream_message scenario_lib scenario_provider scenario_engine ''add'' None None None))))
   \<and> distinct (message_tool_call_ids (last
     (turn_messages scenario_engine
        (snd (snd (stream_message scenario_lib scenario_provider scenario_engine ''add'' None None None))))))"
proof -
  let ?send = "send_message test_lib provider_two_calls test_engine ''hi'' None None None"
  let ?stream = "stream_message scenario_lib scenario_provider scenario_engine ''add'' None None None"
  have "\<exists>r. fst ?send = Inr r"
    by (simp add: turn_eval provider_two_calls_def Let_def)
  then obtain r where "?send = (Inr r, snd ?send)"
    by (metis prod.collapse)
  moreover have "fst (snd ?stream) = None"
    by (simp add: turn_eval stream_eval Let_def)
  then have "?stream = (fst ?stream, None, snd (snd ?stream))"
    by (metis prod.collapse)
  ultimately show ?thesis
    using tool_messages_answered_by_turn_assistant
            [of test_lib provider_two_calls test_engine "''hi''" None None None]
          tool_messages_answered_by_turn_assistant
            [of scenario_lib scenario_provider scenario_engine "''add''" None None None]
    by blast
qed

text \<open>
  The specification asks for the assistant message to come before the tool messages.
  After the turn with two tool calls the conversation is: the user message, the two tool
  messages, and then the assistant message that lists the two calls.
\<close>

theorem tool_messages_answer_earlier_request_counterexample:
  "messages (conversation (snd (send_message test_lib provider_two_calls test_engine ''hi'' None None None))) =
     [mk_msg USER ''hi'',
      \<lparr>role = TOOL, content = ''Error: Tool execution failed: boom'', tool_calls = None,
       tool_call_id = Some ''a''\<rparr>,
      \<lparr>role = TOOL, content = ''ok'', tool_calls = None, tool_call_id = Some ''b''\<rparr>,
      \<lparr>role = ASSISTANT, content = ''done'',
       tool_calls = Some [ToolCall_to_dict \<lparr>tc_id = ''a'', tc_name = ''failing'', tc_arguments = JObj []\<rparr>,
                          ToolCall_to_dict \<lparr>tc_id = ''b'', tc_name = ''echo'', tc_arguments = JObj []\<rparr>],
       tool_call_id = None\<rparr>]
   \<and> \<not> tool_messages_answer_earlier_request
         (messages (conversation (snd (send_message test_lib provider_two_calls test_engine ''hi'' None None None))))"
proof -
  have m: "messages (conversation (snd (send_message test_lib provider_two_calls test_engine ''hi'' None None None))) =
     [mk_msg USER ''hi'',
      \<lparr>role = TOOL, content = ''Error: Tool execution failed: boom'', tool_calls = None,
       tool_call_id = Some ''a''\<rparr>,
      \<lparr>role = TOOL, content = ''ok'', tool_calls = None, tool_call_id = Some ''b''\<rparr>,
      \<lparr>role = ASSISTANT, content = ''done'',
       tool_calls = Some [ToolCall_to_dict \<lparr>tc_id = ''a'', tc_name = ''failing'', tc_arguments = JObj []\<rparr>,
                          ToolCall_to_dict \<lparr>tc_id = ''b'', tc_name = ''echo'', tc_arguments = JObj []\<rparr>],
       tool_call_id = None\<rparr>]"
    by (simp add: turn_eval provider_two_calls_def Let_def)
  show ?thesis
    unfolding m by (simp add: tool_messages_answer_earlier_request_def mk_msg_def)
qed


end
